theory Spec2Isabelle
  imports Complex_Main "HOL-Library.AList"
begin

section \<open>Python values\<close>

text \<open>
  A float is a double: a finite value, one of the two infinities, or NaN. The finite values
  are the reals that a double can hold; the two zeros are not told apart (subtraction,
  \<open>abs\<close> and the comparisons do not depend on the sign of a zero).
\<close>

datatype pyfloat = Finite real | PInf | NInf | NaN

text \<open>
  The validator works on parsed JSON documents and on the attributes of the subject under
  test. A value is \<open>None\<close>, a bool, an unbounded int, a float, a str, a list, a dict, an
  instance of a class of the implementation (\<open>VObj\<close>: the name of its class and every
  attribute that \<open>hasattr\<close> finds on it, methods included) or a bound method (\<open>VMethod\<close>).
  A dict is the association list of its entries; the keys of a parsed dict are distinct.
\<close>

datatype pyval =
    VNone
  | VBool bool
  | VInt int
  | VFloat pyfloat
  | VStr string
  | VList "pyval list"
  | VDict "(string \<times> pyval) list"
  | VObj string "(string \<times> pyval) list"
  | VMethod string

text \<open>The exceptions (subclasses of \<open>Exception\<close>) that the code can meet.\<close>

datatype exc =
    KeyError string
  | AttributeError string
  | TypeError
  | ZeroDivisionError
  | OverflowError
  | SubjectFault string

text \<open>The name of the type of a value, as Python prints it.\<close>

fun type_name :: "pyval \<Rightarrow> string" where
  "type_name VNone = ''NoneType''"
| "type_name (VBool _) = ''bool''"
| "type_name (VInt _) = ''int''"
| "type_name (VFloat _) = ''float''"
| "type_name (VStr _) = ''str''"
| "type_name (VList _) = ''list''"
| "type_name (VDict _) = ''dict''"
| "type_name (VObj c _) = c"
| "type_name (VMethod _) = ''method''"

subsection \<open>Comparisons\<close>

text \<open>
  \<open>==\<close>, \<open>>\<close> and \<open><=\<close> on floats: every comparison with NaN is false.
\<close>

fun fl_eq :: "pyfloat \<Rightarrow> pyfloat \<Rightarrow> bool" where
  "fl_eq (Finite a) (Finite b) = (a = b)"
| "fl_eq PInf PInf = True"
| "fl_eq NInf NInf = True"
| "fl_eq _ _ = False"

fun fl_gt :: "pyfloat \<Rightarrow> pyfloat \<Rightarrow> bool" where
  "fl_gt NaN _ = False"
| "fl_gt _ NaN = False"
| "fl_gt (Finite a) (Finite b) = (a > b)"
| "fl_gt PInf PInf = False"
| "fl_gt PInf _ = True"
| "fl_gt NInf _ = False"
| "fl_gt (Finite a) PInf = False"
| "fl_gt (Finite a) NInf = True"


text \<open>\<open>abs\<close> of a float.\<close>

fun fl_abs :: "pyfloat \<Rightarrow> pyfloat" where
  "fl_abs (Finite a) = Finite \<bar>a\<bar>"
| "fl_abs PInf = PInf"
| "fl_abs NInf = PInf"
| "fl_abs NaN = NaN"

text \<open>
  The value of a number in a comparison: Python compares an int with a float by their exact
  values, and \<open>bool\<close> is a subclass of \<open>int\<close>.
\<close>

fun py_num :: "pyval \<Rightarrow> pyfloat option" where
  "py_num (VBool b) = Some (Finite (if b then 1 else 0))"
| "py_num (VInt i) = Some (Finite (real_of_int i))"
| "py_num (VFloat f) = Some f"
| "py_num _ = None"

text \<open>The int that a bool or an int is.\<close>

fun py_int :: "pyval \<Rightarrow> int option" where
  "py_int (VBool b) = Some (if b then 1 else 0)"
| "py_int (VInt i) = Some i"
| "py_int _ = None"

text \<open>
  Python's \<open>==\<close>: numbers (bool, int, float) compare by value, str and None with their own
  kind, lists element by element, dicts entry by entry whatever the order. An instance or a
  bound method of the implementation is never equal to a value of a JSON document.
\<close>

fun py_eq :: "pyval \<Rightarrow> pyval \<Rightarrow> bool" where
  "py_eq (VList xs) (VList ys) = list_all2 py_eq xs ys"
| "py_eq (VDict a) (VDict b) =
     (length a = length b \<and>
      (\<forall>(k, v) \<in> set a. case map_of b k of None \<Rightarrow> False | Some w \<Rightarrow> py_eq v w))"
| "py_eq (VStr s) (VStr t) = (s = t)"
| "py_eq VNone VNone = True"
| "py_eq x y = (case (py_num x, py_num y) of (Some a, Some b) \<Rightarrow> fl_eq a b | _ \<Rightarrow> False)"

text \<open>\<open>x > y\<close>: TypeError off the numbers.\<close>

definition py_gt :: "pyval \<Rightarrow> pyval \<Rightarrow> exc + bool" where
  "py_gt x y = (case (py_num x, py_num y) of (Some a, Some b) \<Rightarrow> Inr (fl_gt a b) | _ \<Rightarrow> Inl TypeError)"

text \<open>\<open>abs(x)\<close>: an int for a bool or an int, a float for a float.\<close>

definition py_abs :: "pyval \<Rightarrow> exc + pyval" where
  "py_abs x =
     (case x of
        VBool b \<Rightarrow> Inr (VInt (if b then 1 else 0))
      | VInt i \<Rightarrow> Inr (VInt \<bar>i\<bar>)
      | VFloat f \<Rightarrow> Inr (VFloat (fl_abs f))
      | _ \<Rightarrow> Inl TypeError)"

text \<open>The number of iterations of \<open>range(n)\<close>: a float is refused with TypeError.\<close>

definition py_range :: "pyval \<Rightarrow> exc + nat" where
  "py_range n =
     (case n of
        VBool b \<Rightarrow> Inr (if b then 1 else 0)
      | VInt i \<Rightarrow> Inr (nat i)
      | _ \<Rightarrow> Inl TypeError)"

subsection \<open>Containers and strings\<close>

text \<open>\<open>v[key]\<close> with a str key.\<close>

definition subscript :: "pyval \<Rightarrow> string \<Rightarrow> exc + pyval" where
  "subscript v key =
     (case v of
        VDict d \<Rightarrow> (case map_of d key of Some x \<Rightarrow> Inr x | None \<Rightarrow> Inl (KeyError key))
      | _ \<Rightarrow> Inl TypeError)"

text \<open>The elements that \<open>for x in v\<close> visits: a dict gives its keys, a str its characters.\<close>

definition py_iter :: "pyval \<Rightarrow> exc + pyval list" where
  "py_iter v =
     (case v of
        VList xs \<Rightarrow> Inr xs
      | VDict d \<Rightarrow> Inr (map (\<lambda>(k, _). VStr k) d)
      | VStr s \<Rightarrow> Inr (map (\<lambda>c. VStr [c]) s)
      | _ \<Rightarrow> Inl TypeError)"

text \<open>The single quote of Python's messages.\<close>

definition sq :: string where
  "sq = [CHR 0x27]"

definition no_attribute :: "pyval \<Rightarrow> string \<Rightarrow> string" where
  "no_attribute v name =
     sq @ type_name v @ sq @ '' object has no attribute '' @ sq @ name @ sq"

text \<open>\<open>v.get(key, default)\<close>.\<close>

definition py_get :: "pyval \<Rightarrow> string \<Rightarrow> pyval \<Rightarrow> exc + pyval" where
  "py_get v key dflt =
     (case v of
        VDict d \<Rightarrow> (case map_of d key of Some x \<Rightarrow> Inr x | None \<Rightarrow> Inr dflt)
      | _ \<Rightarrow> Inl (AttributeError (no_attribute v ''get'')))"

text \<open>\<open>init_state.items()\<close>.\<close>

definition py_items :: "pyval \<Rightarrow> exc + (string \<times> pyval) list" where
  "py_items v = (case v of VDict d \<Rightarrow> Inr d | _ \<Rightarrow> Inl (AttributeError (no_attribute v ''items'')))"

text \<open>\<open>path.split('.')\<close>: the pieces between the dots, at least one piece.\<close>

fun split_dot :: "string \<Rightarrow> string list" where
  "split_dot [] = [[]]"
| "split_dot (c # cs) =
     (if c = CHR ''.'' then [] # split_dot cs
      else (case split_dot cs of [] \<Rightarrow> [[c]] | w # ws \<Rightarrow> (c # w) # ws))"

section \<open>What the validator is run against\<close>

text \<open>
  The implementation module and the Python runtime are not part of the validator; they are
  parameters of the model:
  \<^item> \<open>builtin_attr v name\<close>: the attribute \<open>name\<close> of a value of a built-in type, if it has one;
  \<^item> \<open>EmotionalState\<close>: what \<open>implementation.EmotionalState()\<close> gives, the same at every call;
  \<^item> \<open>call_method m self args\<close>: a call of the method \<open>m\<close>, giving the exception it raises or
    its result and the object as the call leaves it;
  \<^item> \<open>implementation_name\<close>, \<open>implementation_version\<close>: \<open>__name__\<close> and \<open>__version__\<close> (if
    any) of the module;
  \<^item> \<open>py_str\<close>: how an f-string formats a value;
  \<^item> \<open>round_real\<close>: the double nearest to a real that lies within the range of the doubles;
  \<^item> \<open>float_floordiv f d\<close>: what \<open>f // d\<close> gives for a float \<open>f\<close> and an int \<open>d\<close> other than
    zero, which is a float.
\<close>

record env =
  builtin_attr :: "pyval \<Rightarrow> string \<Rightarrow> pyval option"
  EmotionalState :: "exc + pyval"
  call_method :: "string \<Rightarrow> pyval \<Rightarrow> pyval list \<Rightarrow> exc + (pyval \<times> pyval)"
  implementation_name :: pyval
  implementation_version :: "pyval option"
  py_str :: "pyval \<Rightarrow> string"
  round_real :: "real \<Rightarrow> real"
  float_floordiv :: "pyfloat \<Rightarrow> int \<Rightarrow> pyfloat"

text \<open>\<open>getattr(v, name)\<close>, \<open>None\<close> where \<open>hasattr(v, name)\<close> is false.\<close>

definition py_getattr :: "env \<Rightarrow> pyval \<Rightarrow> string \<Rightarrow> pyval option" where
  "py_getattr env v name = (case v of VObj c attrs \<Rightarrow> map_of attrs name | _ \<Rightarrow> builtin_attr env v name)"

text \<open>\<open>setattr(v, name, x)\<close>: values of the built-in types refuse it.\<close>

definition py_setattr :: "pyval \<Rightarrow> string \<Rightarrow> pyval \<Rightarrow> exc + pyval" where
  "py_setattr v name x =
     (case v of
        VObj c attrs \<Rightarrow> Inr (VObj c (AList.update name x attrs))
      | _ \<Rightarrow> Inl (AttributeError (no_attribute v name)))"

subsection \<open>Float arithmetic\<close>

text \<open>
  A real of magnitude \<open>2^1024 - 2^970\<close> or more is beyond the doubles: rounding it gives an
  infinity. Every other real is rounded to the nearest double.
\<close>

definition overflow_threshold :: real where
  "overflow_threshold = 2 ^ 1024 - 2 ^ 970"

definition round_float :: "env \<Rightarrow> real \<Rightarrow> pyfloat" where
  "round_float env r =
     (if r \<ge> overflow_threshold then PInf
      else if r \<le> - overflow_threshold then NInf
      else Finite (round_real env r))"

text \<open>
  \<open>float(i)\<close>, as the arithmetic does it to an int operand that meets a float:
  OverflowError for an int beyond the doubles.
\<close>

definition float_of_int :: "env \<Rightarrow> int \<Rightarrow> exc + pyfloat" where
  "float_of_int env i =
     (case round_float env (real_of_int i) of
        Finite r \<Rightarrow> Inr (Finite r)
      | _ \<Rightarrow> Inl OverflowError)"

text \<open>A number as a float operand.\<close>

definition as_float :: "env \<Rightarrow> pyval \<Rightarrow> exc + pyfloat" where
  "as_float env x =
     (case x of
        VFloat f \<Rightarrow> Inr f
      | VInt i \<Rightarrow> float_of_int env i
      | VBool b \<Rightarrow> Inr (Finite (if b then 1 else 0))
      | _ \<Rightarrow> Inl TypeError)"

text \<open>Subtraction and multiplication of two floats: the exact result, rounded.\<close>

fun fl_sub :: "env \<Rightarrow> pyfloat \<Rightarrow> pyfloat \<Rightarrow> pyfloat" where
  "fl_sub env NaN _ = NaN"
| "fl_sub env _ NaN = NaN"
| "fl_sub env (Finite a) (Finite b) = round_float env (a - b)"
| "fl_sub env PInf PInf = NaN"
| "fl_sub env NInf NInf = NaN"
| "fl_sub env PInf _ = PInf"
| "fl_sub env NInf _ = NInf"
| "fl_sub env (Finite a) PInf = NInf"
| "fl_sub env (Finite a) NInf = PInf"

fun fl_mul :: "env \<Rightarrow> pyfloat \<Rightarrow> pyfloat \<Rightarrow> pyfloat" where
  "fl_mul env NaN _ = NaN"
| "fl_mul env _ NaN = NaN"
| "fl_mul env (Finite a) (Finite b) = round_float env (a * b)"
| "fl_mul env (Finite a) PInf = (if a = 0 then NaN else if a > 0 then PInf else NInf)"
| "fl_mul env (Finite a) NInf = (if a = 0 then NaN else if a > 0 then NInf else PInf)"
| "fl_mul env PInf (Finite b) = (if b = 0 then NaN else if b > 0 then PInf else NInf)"
| "fl_mul env NInf (Finite b) = (if b = 0 then NaN else if b > 0 then NInf else PInf)"
| "fl_mul env PInf PInf = PInf"
| "fl_mul env PInf NInf = NInf"
| "fl_mul env NInf PInf = NInf"
| "fl_mul env NInf NInf = PInf"

text \<open>
  \<open>x - y\<close>: TypeError off the numbers; the exact int for two ints; otherwise both operands
  as floats (an int is rounded to a double, or is too large for one) and the float
  difference.
\<close>

definition py_sub :: "env \<Rightarrow> pyval \<Rightarrow> pyval \<Rightarrow> exc + pyval" where
  "py_sub env x y =
     (case (py_num x, py_num y) of
        (Some _, Some _) \<Rightarrow>
          (case (py_int x, py_int y) of
             (Some a, Some b) \<Rightarrow> Inr (VInt (a - b))
           | _ \<Rightarrow>
               (case as_float env x of
                  Inl e \<Rightarrow> Inl e
                | Inr a \<Rightarrow>
                    (case as_float env y of
                       Inl e \<Rightarrow> Inl e
                     | Inr b \<Rightarrow> Inr (VFloat (fl_sub env a b)))))
      | _ \<Rightarrow> Inl TypeError)"

text \<open>\<open>a / b\<close> on two ints: the quotient, rounded to a double.\<close>

definition py_truediv :: "env \<Rightarrow> int \<Rightarrow> int \<Rightarrow> exc + pyfloat" where
  "py_truediv env a b =
     (if b = 0 then Inl ZeroDivisionError
      else case round_float env (real_of_int a / real_of_int b) of
             Finite q \<Rightarrow> Inr (Finite q)
           | _ \<Rightarrow> Inl OverflowError)"

text \<open>\<open>f * i\<close> for a float and an int: the int as a float, then the float product.\<close>

definition py_mul_int :: "env \<Rightarrow> pyfloat \<Rightarrow> int \<Rightarrow> exc + pyfloat" where
  "py_mul_int env f i =
     (case float_of_int env i of
        Inl e \<Rightarrow> Inl e
      | Inr g \<Rightarrow> Inr (fl_mul env f g))"

text \<open>\<open>seconds // d\<close> for an int \<open>d\<close>: an int for a bool or an int, a float for a float.\<close>

definition py_floordiv :: "env \<Rightarrow> pyval \<Rightarrow> int \<Rightarrow> exc + pyval" where
  "py_floordiv env x d =
     (if d = 0 then (case py_num x of Some _ \<Rightarrow> Inl ZeroDivisionError | None \<Rightarrow> Inl TypeError)
      else case x of
        VBool b \<Rightarrow> Inr (VInt ((if b then 1 else 0) div d))
      | VInt i \<Rightarrow> Inr (VInt (i div d))
      | VFloat f \<Rightarrow> Inr (VFloat (float_floordiv env f d))
      | _ \<Rightarrow> Inl TypeError)"

text \<open>A float literal of the source: the double nearest to the decimal that is written.\<close>

definition float_literal :: "env \<Rightarrow> real \<Rightarrow> pyval" where
  "float_literal env r = VFloat (round_float env r)"

section \<open>Output and calls\<close>

text \<open>The lines the validator prints, one constructor for each \<open>print\<close> of the source.\<close>

datatype diag =
    Running pyval pyval
  | CannotAccess pyval exc
  | NotEqual pyval pyval pyval
  | NotApproximately pyval pyval pyval pyval
  | UnknownAssertionType pyval
  | UnknownSetupAction pyval
  | UnknownStepAction pyval
  | RecommendedNotSet
  | RecommendedNotEqual pyval pyval
  | Passed pyval pyval
  | Failed pyval pyval
  | Error pyval pyval exc
  | SuiteVersion pyval
  | SpecVersion pyval
  | TestingImplementation pyval
  | Rule
  | ResultsLine nat nat
  | Conformant
  | NonConformant
  | ReportWritten

text \<open>What a run does that can be observed: a printed line, or a call on the implementation.\<close>

datatype event = Print diag | Call string "pyval list"

text \<open>
  A computation gives the events it caused and either what stopped it or its result. Inside
  \<open>run_test\<close> a computation is stopped by an exception or by a \<open>return\<close>.
\<close>

type_synonym ('e, 'a) res = "event list \<times> ('e + 'a)"

datatype abort = Raised exc | Returned bool

definition bind_res :: "('e, 'a) res \<Rightarrow> ('a \<Rightarrow> ('e, 'b) res) \<Rightarrow> ('e, 'b) res" where
  "bind_res m f =
     (case m of
        (ev, Inl e) \<Rightarrow> (ev, Inl e)
      | (ev, Inr x) \<Rightarrow> (case f x of (ev', r) \<Rightarrow> (ev @ ev', r)))"

definition lift :: "exc + 'a \<Rightarrow> (exc, 'a) res" where
  "lift r = ([], r)"

definition raising :: "(exc, 'a) res \<Rightarrow> (abort, 'a) res" where
  "raising m = (case m of (ev, Inl e) \<Rightarrow> (ev, Inl (Raised e)) | (ev, Inr x) \<Rightarrow> (ev, Inr x))"

text \<open>\<open>state.name(*args)\<close>: look the attribute up, then call it.\<close>

definition call_attr :: "env \<Rightarrow> pyval \<Rightarrow> string \<Rightarrow> pyval list \<Rightarrow> (exc, pyval \<times> pyval) res" where
  "call_attr env state name args =
     (case py_getattr env state name of
        None \<Rightarrow> ([], Inl (AttributeError (no_attribute state name)))
      | Some (VMethod m) \<Rightarrow> ([Call name args], call_method env m state args)
      | Some _ \<Rightarrow> ([], Inl TypeError))"

section \<open>ConformanceValidator\<close>

subsection \<open>get_nested_value\<close>

definition cannot_access :: "string \<Rightarrow> pyval \<Rightarrow> string" where
  "cannot_access key v =
     ''Cannot access '' @ sq @ key @ sq @ '' in <class '' @ sq @ type_name v @ sq @ ''>''"

text \<open>\<open>isinstance(value, dict)\<close>.\<close>

definition isinstance_dict :: "pyval \<Rightarrow> bool" where
  "isinstance_dict v = (case v of VDict _ \<Rightarrow> True | _ \<Rightarrow> False)"

text \<open>The loop over the keys of the path.\<close>

fun get_nested_loop :: "env \<Rightarrow> pyval \<Rightarrow> string list \<Rightarrow> exc + pyval" where
  "get_nested_loop env v [] = Inr v"
| "get_nested_loop env v (key # keys) =
     (case py_getattr env v key of
        Some a \<Rightarrow> get_nested_loop env a keys
      | None \<Rightarrow>
          if isinstance_dict v then
            (case subscript v key of
               Inr x \<Rightarrow> get_nested_loop env x keys
             | Inl e \<Rightarrow> Inl e)
          else Inl (AttributeError (cannot_access key v)))"

text \<open>Only a str has \<open>split\<close>.\<close>

definition get_nested_value :: "env \<Rightarrow> pyval \<Rightarrow> pyval \<Rightarrow> exc + pyval" where
  "get_nested_value env obj path =
     (case path of
        VStr s \<Rightarrow> get_nested_loop env obj (split_dot s)
      | _ \<Rightarrow> Inl (AttributeError (no_attribute path ''split'')))"

subsection \<open>assert_value\<close>

definition assert_value :: "env \<Rightarrow> pyval \<Rightarrow> pyval \<Rightarrow> (exc, bool) res" where
  "assert_value env state assertion =
     bind_res (lift (subscript assertion ''path'')) (\<lambda>path.
     bind_res (lift (subscript assertion ''expected'')) (\<lambda>expected.
     bind_res (lift (subscript assertion ''type'')) (\<lambda>assert_type.
       case get_nested_value env state path of
         Inl (AttributeError m) \<Rightarrow> ([Print (CannotAccess path (AttributeError m))], Inr False)
       | Inl (KeyError k) \<Rightarrow> ([Print (CannotAccess path (KeyError k))], Inr False)
       | Inl e \<Rightarrow> ([], Inl e)
       | Inr actual \<Rightarrow>
           if py_eq assert_type (VStr ''equals'') then
             (if \<not> py_eq actual expected
              then ([Print (NotEqual path expected actual)], Inr False)
              else ([], Inr True))
           else if py_eq assert_type (VStr ''approximately'') then
             bind_res (lift (py_get assertion ''tolerance'' (float_literal env 0.001))) (\<lambda>tolerance.
             bind_res (lift (py_sub env actual expected)) (\<lambda>diff.
             bind_res (lift (py_abs diff)) (\<lambda>distance.
             bind_res (lift (py_gt distance tolerance)) (\<lambda>too_far.
               if too_far
               then ([Print (NotApproximately path expected actual tolerance)], Inr False)
               else ([], Inr True)))))
           else ([Print (UnknownAssertionType assert_type)], Inr False))))"

subsection \<open>run_test\<close>

text \<open>The setup: the new subject, with the fields of \<open>initial_state\<close> set one by one.\<close>

fun set_initial_state :: "pyval \<Rightarrow> (string \<times> pyval) list \<Rightarrow> exc + pyval" where
  "set_initial_state state [] = Inr state"
| "set_initial_state state ((key, val) # rest) =
     (case py_setattr state key val of
        Inl e \<Rightarrow> Inl e
      | Inr state' \<Rightarrow> set_initial_state state' rest)"

definition run_setup :: "env \<Rightarrow> pyval \<Rightarrow> (abort, pyval) res" where
  "run_setup env test =
     bind_res (raising (lift (subscript test ''setup''))) (\<lambda>setup.
     bind_res (raising (lift (subscript setup ''action''))) (\<lambda>action.
       if py_eq action (VStr ''initialize'') then
         bind_res (raising ([Call ''EmotionalState'' []], EmotionalState env)) (\<lambda>state.
           case subscript setup ''initial_state'' of
             Inr init_state \<Rightarrow>
               bind_res (raising (lift (py_items init_state))) (\<lambda>items.
                 raising (lift (set_initial_state state items)))
           | Inl _ \<Rightarrow> ([], Inr state))
       else ([Print (UnknownSetupAction action)], Inl (Returned False))))"

text \<open>\<open>for _ in range(intervals): state.apply_decay()\<close>.\<close>

fun decay_loop :: "env \<Rightarrow> nat \<Rightarrow> pyval \<Rightarrow> (exc, pyval) res" where
  "decay_loop env 0 state = ([], Inr state)"
| "decay_loop env (Suc n) state =
     bind_res (call_attr env state ''apply_decay'' []) (\<lambda>(_, state').
       decay_loop env n state')"

text \<open>One step of the test, from the state before it to the state after it.\<close>

definition exec_step :: "env \<Rightarrow> pyval \<Rightarrow> pyval \<Rightarrow> (abort, pyval) res" where
  "exec_step env state step =
     bind_res (raising (lift (subscript step ''action''))) (\<lambda>action.
       if py_eq action (VStr ''process_event'') then
         bind_res (raising (lift (subscript step ''event''))) (\<lambda>event.
         bind_res (raising (call_attr env state ''process_event'' [event])) (\<lambda>(_, state').
           ([], Inr state')))
       else if py_eq action (VStr ''advance_time'') then
         bind_res (raising (lift (subscript step ''seconds''))) (\<lambda>seconds.
           if py_getattr env state ''advance_time'' \<noteq> None then
             bind_res (raising (call_attr env state ''advance_time'' [seconds])) (\<lambda>(_, state').
               ([], Inr state'))
           else
             bind_res (raising (lift (py_floordiv env seconds 300))) (\<lambda>intervals.
             bind_res (raising (lift (py_range intervals))) (\<lambda>n.
               raising (decay_loop env n state))))
       else if py_eq action (VStr ''get_recommended_action'') then
         bind_res (raising (call_attr env state ''recommended_action'' [])) (\<lambda>(r, state').
           raising (lift (py_setattr state' ''_recommended_action'' r)))
       else ([Print (UnknownStepAction action)], Inl (Returned False)))"

fun run_steps :: "env \<Rightarrow> pyval \<Rightarrow> pyval list \<Rightarrow> (abort, pyval) res" where
  "run_steps env state [] = ([], Inr state)"
| "run_steps env state (step # steps) =
     bind_res (exec_step env state step) (\<lambda>state'. run_steps env state' steps)"

text \<open>
  The body of the loop over the assertions: whether this assertion passed. The reserved path
  \<open>recommended_action\<close> reads what a \<open>get_recommended_action\<close> step stored on the subject.
\<close>

definition check_assertion :: "env \<Rightarrow> pyval \<Rightarrow> pyval \<Rightarrow> (exc, bool) res" where
  "check_assertion env state assertion =
     bind_res (lift (subscript assertion ''path'')) (\<lambda>path.
       if py_eq path (VStr ''recommended_action'') then
         (case py_getattr env state ''_recommended_action'' of
            None \<Rightarrow> ([Print RecommendedNotSet], Inr False)
          | Some actual \<Rightarrow>
              bind_res (lift (subscript assertion ''expected'')) (\<lambda>expected.
                if \<not> py_eq actual expected
                then ([Print (RecommendedNotEqual expected actual)], Inr False)
                else ([], Inr True)))
       else assert_value env state assertion)"

fun run_assertions :: "env \<Rightarrow> pyval \<Rightarrow> pyval list \<Rightarrow> bool \<Rightarrow> (exc, bool) res" where
  "run_assertions env state [] all_passed = ([], Inr all_passed)"
| "run_assertions env state (assertion # rest) all_passed =
     bind_res (check_assertion env state assertion) (\<lambda>ok.
       run_assertions env state rest (all_passed \<and> ok))"

text \<open>What stands inside \<open>try\<close> before the loop over the assertions.\<close>

definition run_to_assertions :: "env \<Rightarrow> pyval \<Rightarrow> (abort, pyval \<times> pyval list) res" where
  "run_to_assertions env test =
     bind_res (run_setup env test) (\<lambda>state0.
     bind_res (raising (lift (subscript test ''steps''))) (\<lambda>steps_v.
     bind_res (raising (lift (py_iter steps_v))) (\<lambda>steps.
     bind_res (run_steps env state0 steps) (\<lambda>state.
     bind_res (raising (lift (subscript test ''assertions''))) (\<lambda>assertions_v.
     bind_res (raising (lift (py_iter assertions_v))) (\<lambda>assertions.
       ([], Inr (state, assertions))))))))"

text \<open>What stands inside \<open>try\<close>, up to the value of \<open>all_passed\<close>.\<close>

definition run_test_body :: "env \<Rightarrow> pyval \<Rightarrow> (abort, bool) res" where
  "run_test_body env test =
     bind_res (run_to_assertions env test) (\<lambda>(state, assertions).
       raising (run_assertions env state assertions True))"

definition run_test :: "env \<Rightarrow> pyval \<Rightarrow> (exc, bool) res" where
  "run_test env test =
     bind_res (lift (subscript test ''id'')) (\<lambda>test_id.
     bind_res (lift (subscript test ''name'')) (\<lambda>test_name.
       case run_test_body env test of
         (ev, Inr True) \<Rightarrow>
           (Print (Running test_id test_name) # ev @ [Print (Passed test_id test_name)], Inr True)
       | (ev, Inr False) \<Rightarrow>
           (Print (Running test_id test_name) # ev @ [Print (Failed test_id test_name)], Inr False)
       | (ev, Inl (Returned b)) \<Rightarrow>
           (Print (Running test_id test_name) # ev, Inr b)
       | (ev, Inl (Raised e)) \<Rightarrow>
           (Print (Running test_id test_name) # ev @ [Print (Error test_id test_name e)], Inr False)))"

subsection \<open>run_all_tests\<close>

record test_result =
  res_id :: pyval
  res_name :: pyval
  status :: string

record validator =
  test_data :: pyval
  results :: "test_result list"

text \<open>The loop over the tests: the results so far and the two counters.\<close>

fun run_tests_loop ::
  "env \<Rightarrow> pyval list \<Rightarrow> test_result list \<Rightarrow> nat \<Rightarrow> nat \<Rightarrow>
   event list \<times> test_result list \<times> (exc + nat \<times> nat)" where
  "run_tests_loop env [] rs passed failed = ([], rs, Inr (passed, failed))"
| "run_tests_loop env (test # rest) rs passed failed =
     (case run_test env test of
        (ev, Inl e) \<Rightarrow> (ev, rs, Inl e)
      | (ev, Inr result) \<Rightarrow>
          (case subscript test ''id'' of
             Inl e \<Rightarrow> (ev, rs, Inl e)
           | Inr test_id \<Rightarrow>
               (case subscript test ''name'' of
                  Inl e \<Rightarrow> (ev, rs, Inl e)
                | Inr test_name \<Rightarrow>
                    (case run_tests_loop env rest
                            (rs @ [\<lparr>res_id = test_id, res_name = test_name,
                                     status = (if result then ''PASSED'' else ''FAILED'')\<rparr>])
                            (if result then passed + 1 else passed)
                            (if result then failed else failed + 1) of
                       (ev', r) \<Rightarrow> (ev @ ev', r)))))"

definition run_all_tests :: "env \<Rightarrow> validator \<Rightarrow> event list \<times> validator \<times> (exc + bool)" where
  "run_all_tests env v =
     (case subscript (test_data v) ''version'' of
        Inl e \<Rightarrow> ([], v, Inl e)
      | Inr version \<Rightarrow>
     (case subscript (test_data v) ''spec_version'' of
        Inl e \<Rightarrow> ([Print (SuiteVersion version)], v, Inl e)
      | Inr spec \<Rightarrow>
     (let banner = [Print (SuiteVersion version), Print (SpecVersion spec),
                    Print (TestingImplementation (implementation_name env)), Print Rule] in
     (case subscript (test_data v) ''tests'' of
        Inl e \<Rightarrow> (banner, v, Inl e)
      | Inr tests_v \<Rightarrow>
     (case py_iter tests_v of
        Inl e \<Rightarrow> (banner, v, Inl e)
      | Inr tests \<Rightarrow>
     (case run_tests_loop env tests (results v) 0 0 of
        (ev, rs, Inl e) \<Rightarrow> (banner @ ev, v\<lparr>results := rs\<rparr>, Inl e)
      | (ev, rs, Inr (passed, failed)) \<Rightarrow>
          (if failed = 0
           then (banner @ ev @ [Print Rule, Print (ResultsLine passed failed), Print Conformant],
                 v\<lparr>results := rs\<rparr>, Inr True)
           else (banner @ ev @ [Print Rule, Print (ResultsLine passed failed), Print NonConformant],
                 v\<lparr>results := rs\<rparr>, Inr False))))))))"

subsection \<open>generate_report\<close>

record report =
  impl_name :: pyval
  impl_version :: pyval
  impl_language :: string
  impl_license :: string
  spec_version :: pyval
  test_suite_version :: pyval
  tr_total :: nat
  tr_passed :: nat
  tr_failed :: nat
  tr_errors :: nat
  tr_pass_rate :: pyval
  test_details :: "test_result list"
  conformance_statement :: string

text \<open>The report that is handed to \<open>json.dump\<close>; writing the file is not modelled.\<close>

definition generate_report :: "env \<Rightarrow> validator \<Rightarrow> (exc, report) res" where
  "generate_report env v =
     (let total = length (results v);
          passed = length (filter (\<lambda>r. status r = ''PASSED'') (results v));
          failed = total - passed in
      bind_res (lift (subscript (test_data v) ''spec_version'')) (\<lambda>spec.
      bind_res (lift (subscript (test_data v) ''version'')) (\<lambda>version.
      bind_res (lift (if total > 0
                      then (case py_truediv env (int passed) (int total) of
                              Inl e \<Rightarrow> Inl e
                            | Inr q \<Rightarrow>
                                (case py_mul_int env q 100 of
                                   Inl e \<Rightarrow> Inl e
                                 | Inr rate \<Rightarrow> Inr (VFloat rate)))
                      else Inr (VInt 0))) (\<lambda>rate.
        ([Print ReportWritten],
         Inr \<lparr>impl_name = implementation_name env,
              impl_version = (case implementation_version env of Some x \<Rightarrow> x | None \<Rightarrow> VStr ''unknown''),
              impl_language = ''Python'',
              impl_license = ''Apache-2.0'',
              spec_version = spec,
              test_suite_version = version,
              tr_total = total,
              tr_passed = passed,
              tr_failed = failed,
              tr_errors = 0,
              tr_pass_rate = rate,
              test_details = results v,
              conformance_statement =
                ''This implementation is ''
                @ (if failed = 0 then ''fully conformant'' else ''NOT conformant'')
                @ '' with the Aifeels Specification v'' @ py_str env spec @ ''.''\<rparr>)))))"

section \<open>A sample implementation\<close>

text \<open>
  The rounding of the doubles: to the nearest multiple of the unit in the last of 53 binary
  places, a tie going to the even multiple, with exponents from \<open>-1022\<close> on.
\<close>

definition round_half_even :: "real \<Rightarrow> int" where
  "round_half_even x =
     (let f = \<lfloor>x\<rfloor> in
      if x - of_int f < 1 / 2 then f
      else if x - of_int f > 1 / 2 then f + 1
      else if even f then f else f + 1)"

definition ulp_exponent :: "real \<Rightarrow> int" where
  "ulp_exponent r = max \<lfloor>log 2 \<bar>r\<bar>\<rfloor> (- 1022) - 52"

definition round_double :: "real \<Rightarrow> real" where
  "round_double r =
     (if r = 0 then 0
      else of_int (round_half_even (r / 2 powr of_int (ulp_exponent r)))
             * 2 powr of_int (ulp_exponent r))"

text \<open>
  A small implementation to run the validator on: its subject has the fields \<open>trust\<close>,
  \<open>calm\<close> and \<open>label\<close> and the methods \<open>process_event\<close>, \<open>apply_decay\<close> and
  \<open>recommended_action\<close>, and no \<open>advance_time\<close>. The numbers of its methods are binary
  fractions, on which their float arithmetic is exact.
\<close>

definition sample_subject :: pyval where
  "sample_subject =
     VObj ''EmotionalState''
       [(''trust'', VFloat (Finite 0.5)), (''calm'', VBool True), (''label'', VStr ''x''),
        (''process_event'', VMethod ''process_event''),
        (''apply_decay'', VMethod ''apply_decay''),
        (''recommended_action'', VMethod ''recommended_action'')]"

definition sample_call :: "string \<Rightarrow> pyval \<Rightarrow> pyval list \<Rightarrow> exc + (pyval \<times> pyval)" where
  "sample_call m self args =
     (case self of
        VObj c attrs \<Rightarrow>
          (case map_of attrs ''trust'' of
             Some (VFloat (Finite t)) \<Rightarrow>
               (if m = ''process_event''
                  then Inr (VNone, VObj c (AList.update ''trust'' (VFloat (Finite (t + 0.125))) attrs))
                else if m = ''apply_decay''
                  then Inr (VNone, VObj c (AList.update ''trust'' (VFloat (Finite (t / 2))) attrs))
                else if m = ''recommended_action''
                  then Inr (VStr (if t < 0.5 then ''soothe'' else ''none''), self)
                else Inl (SubjectFault ''no such method''))
           | _ \<Rightarrow> Inl (SubjectFault ''trust is not a finite float''))
      | _ \<Rightarrow> Inl (SubjectFault ''not an EmotionalState''))"

definition sample_floordiv :: "pyfloat \<Rightarrow> int \<Rightarrow> pyfloat" where
  "sample_floordiv f d =
     (case f of Finite r \<Rightarrow> Finite (of_int \<lfloor>r / of_int d\<rfloor>) | _ \<Rightarrow> NaN)"

definition sample_env :: env where
  "sample_env =
     \<lparr>builtin_attr = (\<lambda>v name. None),
      EmotionalState = Inr sample_subject,
      call_method = sample_call,
      implementation_name = VStr ''aifeels'',
      implementation_version = None,
      py_str = (\<lambda>v. case v of VStr s \<Rightarrow> s | _ \<Rightarrow> ''?''),
      round_real = round_double,
      float_floordiv = sample_floordiv\<rparr>"


text \<open>Documents to run it on: an \<open>advance_time\<close> step and assertions.\<close>

definition advance_step :: "pyval \<Rightarrow> pyval" where
  "advance_step seconds = VDict [(''action'', VStr ''advance_time''), (''seconds'', seconds)]"

definition assertion_doc :: "pyval \<Rightarrow> pyval \<Rightarrow> pyval \<Rightarrow> pyval" where
  "assertion_doc path expected assert_type =
     VDict [(''path'', path), (''expected'', expected), (''type'', assert_type)]"

definition assertion_tol_doc :: "pyval \<Rightarrow> pyval \<Rightarrow> pyval \<Rightarrow> pyval \<Rightarrow> pyval" where
  "assertion_tol_doc path expected assert_type tolerance =
     VDict [(''path'', path), (''expected'', expected), (''type'', assert_type),
            (''tolerance'', tolerance)]"

text \<open>
  Setups, steps, assertions on \<open>recommended_action\<close>, tests and a suite.
\<close>

definition initialize_setup :: pyval where
  "initialize_setup = VDict [(''action'', VStr ''initialize'')]"

definition initialize_with :: "(string \<times> pyval) list \<Rightarrow> pyval" where
  "initialize_with init =
     VDict [(''action'', VStr ''initialize''), (''initial_state'', VDict init)]"

definition test_doc :: "string \<Rightarrow> pyval \<Rightarrow> pyval list \<Rightarrow> pyval list \<Rightarrow> pyval" where
  "test_doc name setup steps assertions =
     VDict [(''id'', VStr name), (''name'', VStr name), (''setup'', setup),
            (''steps'', VList steps), (''assertions'', VList assertions)]"

definition recommended_doc :: "pyval \<Rightarrow> pyval" where
  "recommended_doc expected = VDict [(''path'', VStr ''recommended_action''), (''expected'', expected)]"

definition query_step :: pyval where
  "query_step = VDict [(''action'', VStr ''get_recommended_action'')]"

definition event_step :: pyval where
  "event_step = VDict [(''action'', VStr ''process_event''),
                       (''event'', VDict [(''type'', VStr ''positive'')])]"

text \<open>
  A test that presets the attribute in which a \<open>get_recommended_action\<close> step stores its
  result; a test whose first assertion asks for an approximate comparison of a str; a test
  whose assertions all evaluate, two of them failing; a test that passes; a test with a
  step that the validator does not know.
\<close>

definition preset_test :: pyval where
  "preset_test =
     test_doc ''preset'' (initialize_with [(''_recommended_action'', VStr ''soothe'')]) []
       [recommended_doc (VStr ''soothe'')]"

definition faulting_test :: pyval where
  "faulting_test =
     test_doc ''faulting'' initialize_setup []
       [assertion_doc (VStr ''label'') (VInt 1) (VStr ''approximately''),
        assertion_doc (VStr ''missing'') (VInt 0) (VStr ''equals'')]"

definition collecting_test :: pyval where
  "collecting_test =
     test_doc ''collecting'' initialize_setup []
       [assertion_doc (VStr ''missing'') (VInt 0) (VStr ''equals''),
        assertion_doc (VStr ''label'') (VStr ''y'') (VStr ''equals''),
        assertion_doc (VStr ''calm'') (VBool True) (VStr ''equals'')]"


definition teleport_test :: pyval where
  "teleport_test =
     test_doc ''teleport'' initialize_setup [VDict [(''action'', VStr ''teleport'')]] []"

definition sample_suite :: "pyval list \<Rightarrow> pyval" where
  "sample_suite tests =
     VDict [(''version'', VStr ''1.0''), (''spec_version'', VStr ''0.1''), (''tests'', VList tests)]"

text \<open>
  The sample subject after a \<open>get_recommended_action\<close> step, and results of an earlier run.
\<close>

definition queried_subject :: pyval where
  "queried_subject =
     VObj ''EmotionalState''
       [(''trust'', VFloat (Finite 0.5)), (''calm'', VBool True), (''label'', VStr ''x''),
        (''process_event'', VMethod ''process_event''),
        (''apply_decay'', VMethod ''apply_decay''),
        (''recommended_action'', VMethod ''recommended_action''),
        (''_recommended_action'', VStr ''none'')]"

definition result_entry :: "string \<Rightarrow> string \<Rightarrow> test_result" where
  "result_entry name st = \<lparr>res_id = VStr name, res_name = VStr name, status = st\<rparr>"

definition sample_results :: "test_result list" where
  "sample_results =
     [result_entry ''a'' ''PASSED'', result_entry ''b'' ''FAILED'',
      result_entry ''c'' ''PASSED'', result_entry ''d'' ''PASSED'']"

text \<open>Twenty-five results, seven of them passed.\<close>

definition mixed_results :: "test_result list" where
  "mixed_results =
     replicate 7 (result_entry ''p'' ''PASSED'') @ replicate 18 (result_entry ''f'' ''FAILED'')"

section \<open>Basic facts\<close>

lemma bind_res_Inl: "bind_res (ev, Inl e) f = (ev, Inl e)"
  by (simp add: bind_res_def)

lemma bind_res_Inr: "bind_res (ev, Inr x) f = (case f x of (ev', r) \<Rightarrow> (ev @ ev', r))"
  by (simp add: bind_res_def)

lemma bind_lift_Inr: "bind_res (lift (Inr x)) f = f x"
  by (simp add: bind_res_def lift_def split: prod.splits)

lemma bind_lift_Inl: "bind_res (lift (Inl e)) f = ([], Inl e)"
  by (simp add: bind_res_def lift_def)

lemma bind_raising_lift_Inr: "bind_res (raising (lift (Inr x))) f = f x"
  by (simp add: bind_res_def lift_def raising_def split: prod.splits)

lemma bind_raising_lift_Inl: "bind_res (raising (lift (Inl e))) f = ([], Inl (Raised e))"
  by (simp add: bind_res_def lift_def raising_def)

lemma raising_simps:
  "raising (ev, Inl e) = (ev, Inl (Raised e))"
  "raising (ev, Inr x) = (ev, Inr x)"
  by (simp_all add: raising_def)





text \<open>
  Unfolding a run on a document of the sample implementation.
\<close>

lemmas doc_defs = test_doc_def initialize_setup_def initialize_with_def recommended_doc_def
  query_step_def assertion_doc_def assertion_tol_doc_def advance_step_def event_step_def
  sample_suite_def

lemmas run_defs = run_test_def run_test_body_def run_to_assertions_def run_setup_def
  exec_step_def check_assertion_def assert_value_def get_nested_value_def call_attr_def
  bind_res_def lift_def raising_def subscript_def py_iter_def py_items_def py_get_def
  py_getattr_def py_setattr_def py_sub_def py_abs_def py_gt_def py_floordiv_def py_range_def
  as_float_def float_of_int_def float_literal_def isinstance_dict_def

lemmas sample_defs = sample_env_def sample_subject_def sample_call_def sample_floordiv_def

lemma test_doc_fields:
  "subscript (test_doc name setup steps assertions) ''id'' = Inr (VStr name)"
  "subscript (test_doc name setup steps assertions) ''name'' = Inr (VStr name)"
  by (simp_all add: test_doc_def subscript_def)

lemma recommended_doc_fields:
  "subscript (recommended_doc x) ''path'' = Inr (VStr ''recommended_action'')"
  "subscript (recommended_doc x) ''expected'' = Inr x"
  by (simp_all add: recommended_doc_def subscript_def)

lemma sample_suite_fields:
  "subscript (sample_suite tests) ''version'' = Inr (VStr ''1.0'')"
  "subscript (sample_suite tests) ''spec_version'' = Inr (VStr ''0.1'')"
  "subscript (sample_suite tests) ''tests'' = Inr (VList tests)"
  by (simp_all add: sample_suite_def subscript_def)

lemma sample_reach:
  "run_to_assertions sample_env (test_doc name initialize_setup [] assertions) =
     ([Call ''EmotionalState'' []], Inr (sample_subject, assertions))"
  by (simp add: doc_defs run_defs sample_env_def)

lemma sample_checks:
  "check_assertion sample_env sample_subject (assertion_doc (VStr ''missing'') (VInt 0) (VStr ''equals''))
     = ([Print (CannotAccess (VStr ''missing'')
                 (AttributeError (cannot_access ''missing'' sample_subject)))], Inr False)"
  "check_assertion sample_env sample_subject (assertion_doc (VStr ''label'') (VStr ''y'') (VStr ''equals''))
     = ([Print (NotEqual (VStr ''label'') (VStr ''y'') (VStr ''x''))], Inr False)"
  "check_assertion sample_env sample_subject (assertion_doc (VStr ''calm'') (VBool True) (VStr ''equals''))
     = ([], Inr True)"
  "check_assertion sample_env sample_subject (assertion_doc (VStr ''label'') (VInt 1) (VStr ''approximately''))
     = ([], Inl TypeError)"
  by (simp_all add: doc_defs run_defs sample_defs)

lemma sample_query:
  "exec_step sample_env sample_subject query_step =
     ([Call ''recommended_action'' []], Inr queried_subject)"
  by (simp add: doc_defs run_defs sample_defs queried_subject_def)


lemma round_float_finite:
  "- overflow_threshold < r \<Longrightarrow> r < overflow_threshold \<Longrightarrow>
   round_float env r = Finite (round_real env r)"
  by (simp add: round_float_def)

lemma overflow_threshold_large: "1000 < overflow_threshold"
  by (simp add: overflow_threshold_def)

text \<open>The rounding of the doubles, from the binade of the real that is rounded.\<close>

lemma ulp_exponent_binade:
  assumes "2 powr of_int e \<le> \<bar>r\<bar>" and "\<bar>r\<bar> < 2 powr of_int (e + 1)" and "- 1022 \<le> e"
  shows "ulp_exponent r = e - 52"
proof -
  have "0 < \<bar>r\<bar>"
    using assms(1) powr_gt_zero [of 2 "of_int e"] by linarith
  then have "\<lfloor>log 2 \<bar>r\<bar>\<rfloor> = e"
    using assms(1,2) by (simp add: floor_log_eq_powr_iff)
  with assms(3) show ?thesis by (simp add: ulp_exponent_def)
qed

lemma round_double_binade:
  assumes "2 powr of_int e \<le> \<bar>r\<bar>" and "\<bar>r\<bar> < 2 powr of_int (e + 1)" and "- 1022 \<le> e"
  shows "round_double r =
           of_int (round_half_even (r / 2 powr of_int (e - 52))) * 2 powr of_int (e - 52)"
proof -
  have "0 < \<bar>r\<bar>"
    using assms(1) powr_gt_zero [of 2 "of_int e"] by linarith
  then have "r \<noteq> 0" by simp
  then show ?thesis
    by (simp add: round_double_def ulp_exponent_binade [OF assms])
qed

lemma round_double_values:
  "round_double 0 = 0"
  "round_double (1 / 1000) = 1152921504606847 / 2 ^ 60"
  "round_double (1152921504606847 / 2 ^ 60) = 1152921504606847 / 2 ^ 60"
  "round_double (- (1 / 4)) = - (1 / 4)"
  "round_double (3 / 4) = 3 / 4"
  "round_double (7 / 25) = 5044031582654956 / 2 ^ 54"
  "round_double 75 = 75"
  "round_double 100 = 100"
  "round_double (5044031582654956 / 2 ^ 54 * 100) = 7881299347898369 / 2 ^ 48"
  "round_double 9007199254740992 = 9007199254740992"
  "round_double 9007199254740993 = 9007199254740992"
  using round_double_binade [of "- 10" "1 / 1000"]
        round_double_binade [of "- 10" "1152921504606847 / 2 ^ 60"]
        round_double_binade [of "- 2" "- (1 / 4)"]
        round_double_binade [of "- 1" "3 / 4"]
        round_double_binade [of "- 2" "7 / 25"]
        round_double_binade [of 6 75]
        round_double_binade [of 6 100]
        round_double_binade [of 4 "5044031582654956 / 2 ^ 54 * 100"]
        round_double_binade [of 53 9007199254740992]
        round_double_binade [of 53 9007199254740993]
  by (simp_all add: round_double_def powr_neg_numeral round_half_even_def Let_def)

lemma round_float_sample:
  "- 1000 \<le> r \<Longrightarrow> r \<le> 1000 \<Longrightarrow> round_float sample_env r = Finite (round_double r)"
  using overflow_threshold_large by (simp add: round_float_def sample_env_def)


text \<open>
  The rate of the report: the quotient of two counts lies between 0 and 1 and the int 100
  is within the doubles, so neither the division nor the conversion overflows.
\<close>

lemma report_rate:
  assumes "0 < cnt" and "passed \<le> cnt"
  shows "(case py_truediv env (int passed) (int cnt) of
            Inl e \<Rightarrow> Inl e
          | Inr q \<Rightarrow>
              (case py_mul_int env q 100 of
                 Inl e \<Rightarrow> Inl e
               | Inr rate \<Rightarrow> Inr (VFloat rate)))
         = Inr (VFloat (round_float env
                  (round_real env (real passed / real cnt) * round_real env 100)))"
proof -
  have "0 \<le> real passed / real cnt" and "real passed / real cnt \<le> 1"
    using assms by simp_all
  then have "- overflow_threshold < real passed / real cnt"
    and "real passed / real cnt < overflow_threshold"
    using overflow_threshold_large by linarith+
  then have q: "round_float env (real passed / real cnt)
                  = Finite (round_real env (real passed / real cnt))"
    by (rule round_float_finite)
  have "- overflow_threshold < 100" and "100 < overflow_threshold"
    using overflow_threshold_large by linarith+
  then have c: "round_float env 100 = Finite (round_real env 100)"
    by (rule round_float_finite)
  from assms(1) q c show ?thesis
    by (simp add: py_truediv_def py_mul_int_def float_of_int_def)
qed

lemma generate_report_unfold:
  "generate_report env v =
     (let total = length (results v);
          passed = length (filter (\<lambda>r. status r = ''PASSED'') (results v));
          failed = total - passed in
      bind_res (lift (subscript (test_data v) ''spec_version'')) (\<lambda>spec.
      bind_res (lift (subscript (test_data v) ''version'')) (\<lambda>version.
        ([Print ReportWritten],
         Inr \<lparr>impl_name = implementation_name env,
              impl_version = (case implementation_version env of Some x \<Rightarrow> x | None \<Rightarrow> VStr ''unknown''),
              impl_language = ''Python'',
              impl_license = ''Apache-2.0'',
              spec_version = spec,
              test_suite_version = version,
              tr_total = total,
              tr_passed = passed,
              tr_failed = failed,
              tr_errors = 0,
              tr_pass_rate =
                (if total > 0
                 then VFloat (round_float env
                        (round_real env (real passed / real total) * round_real env 100))
                 else VInt 0),
              test_details = results v,
              conformance_statement =
                ''This implementation is ''
                @ (if failed = 0 then ''fully conformant'' else ''NOT conformant'')
                @ '' with the Aifeels Specification v'' @ py_str env spec @ ''.''\<rparr>))))"
proof (cases "results v = []")
  case True
  then show ?thesis
    by (simp add: generate_report_def Let_def bind_lift_Inr)
next
  case False
  then have pos: "0 < length (results v)" by simp
  have le: "length (filter (\<lambda>r. status r = ''PASSED'') (results v)) \<le> length (results v)"
    by simp
  from pos report_rate [OF pos le, of env] show ?thesis
    by (simp add: generate_report_def Let_def bind_lift_Inr)
qed

text \<open>
  The runs of the sample tests.
\<close>

lemma preset_run:
  "run_test sample_env preset_test =
     ([Print (Running (VStr ''preset'') (VStr ''preset'')), Call ''EmotionalState'' [],
       Print (Passed (VStr ''preset'') (VStr ''preset''))], Inr True)"
  by (simp add: preset_test_def doc_defs run_defs sample_defs)

lemma faulting_run:
  "run_test sample_env faulting_test =
     ([Print (Running (VStr ''faulting'') (VStr ''faulting'')), Call ''EmotionalState'' [],
       Print (Error (VStr ''faulting'') (VStr ''faulting'') TypeError)], Inr False)"
  by (simp add: faulting_test_def doc_defs run_defs sample_defs)

lemma teleport_run:
  "run_test sample_env teleport_test =
     ([Print (Running (VStr ''teleport'') (VStr ''teleport'')), Call ''EmotionalState'' [],
       Print (UnknownStepAction (VStr ''teleport''))], Inr False)"
  by (simp add: teleport_test_def doc_defs run_defs sample_defs)



section \<open>The decay fallback\<close>

lemma call_attr_ok_events:
  "call_attr env state name args = (ev, Inr x) \<Longrightarrow> ev = [Call name args]"
  by (auto simp: call_attr_def split: option.splits pyval.splits)

lemma decay_loop_calls:
  "decay_loop env n state = (ev, Inr state') \<Longrightarrow> ev = replicate n (Call ''apply_decay'' [])"
proof (induction n arbitrary: state ev)
  case 0
  then show ?case by simp
next
  case (Suc n)
  obtain ev1 r1 where c: "call_attr env state ''apply_decay'' [] = (ev1, r1)"
    by (cases "call_attr env state ''apply_decay'' []")
  show ?case
  proof (cases r1)
    case (Inl e)
    with Suc.prems c show ?thesis by (simp add: bind_res_Inl)
  next
    case (Inr x)
    obtain ret s1 where x: "x = (ret, s1)" by (cases x)
    obtain ev2 r2 where d: "decay_loop env n s1 = (ev2, r2)"
      by (cases "decay_loop env n s1")
    from Suc.prems c Inr x d have "ev = ev1 @ ev2" and "r2 = Inr state'"
      by (simp_all add: bind_res_Inr)
    moreover from c Inr have "ev1 = [Call ''apply_decay'' []]"
      by (simp add: call_attr_ok_events)
    moreover from Suc.IH d \<open>r2 = Inr state'\<close> have "ev2 = replicate n (Call ''apply_decay'' [])"
      by simp
    ultimately show ?thesis by simp
  qed
qed

text \<open>
  On an int \<open>seconds\<close> the fallback counts as it should. An \<open>advance_time\<close> step whose
  \<open>seconds\<close> is an int \<open>n\<close>, run on a subject without an \<open>advance_time\<close> attribute, and
  that completes (no call raises), has called \<open>apply_decay()\<close> exactly \<open>n // 300\<close> times
  when that is not negative (and not at all when it is), and has done nothing else that can
  be observed: 899 seconds give two calls, 300 one call, 299 none.
\<close>

lemma advance_time_decay_calls_int:
  assumes act: "subscript step ''action'' = Inr (VStr ''advance_time'')"
      and sec: "subscript step ''seconds'' = Inr (VInt n)"
      and cap: "py_getattr env state ''advance_time'' = None"
      and fin: "exec_step env state step = (ev, Inr state')"
  shows "ev = replicate (nat (n div 300)) (Call ''apply_decay'' [])
         \<and> (n = 899 \<longrightarrow> ev = [Call ''apply_decay'' [], Call ''apply_decay'' []])
         \<and> (n = 300 \<longrightarrow> ev = [Call ''apply_decay'' []])
         \<and> (n = 299 \<longrightarrow> ev = [])"
proof -
  have step: "exec_step env state step = raising (decay_loop env (nat (n div 300)) state)"
    using act sec cap
    by (simp add: exec_step_def bind_raising_lift_Inr py_floordiv_def py_range_def)
  obtain ev1 r1 where d: "decay_loop env (nat (n div 300)) state = (ev1, r1)"
    by (cases "decay_loop env (nat (n div 300)) state")
  from fin step d have "ev1 = ev" and "r1 = Inr state'"
    by (cases r1; simp add: raising_simps)+
  with d have main: "ev = replicate (nat (n div 300)) (Call ''apply_decay'' [])"
    using decay_loop_calls by blast
  show ?thesis
  proof (intro conjI impI)
    show "ev = replicate (nat (n div 300)) (Call ''apply_decay'' [])" by (rule main)
  next
    assume "n = 899"
    with main show "ev = [Call ''apply_decay'' [], Call ''apply_decay'' []]"
      by (simp add: numeral_2_eq_2)
  next
    assume "n = 300"
    with main show "ev = [Call ''apply_decay'' []]" by simp
  next
    assume "n = 299"
    with main show "ev = []" by simp
  qed
qed

text \<open>On the sample implementation, 899 seconds are two calls of \<open>apply_decay()\<close>.\<close>

lemma advance_time_899_sample:
  "subscript (advance_step (VInt 899)) ''action'' = Inr (VStr ''advance_time'')
   \<and> subscript (advance_step (VInt 899)) ''seconds'' = Inr (VInt 899)
   \<and> py_getattr sample_env sample_subject ''advance_time'' = None
   \<and> fst (exec_step sample_env sample_subject (advance_step (VInt 899)))
       = [Call ''apply_decay'' [], Call ''apply_decay'' []]"
proof -
  let ?s' = "VObj ''EmotionalState''
       [(''trust'', VFloat (Finite 0.125)), (''calm'', VBool True), (''label'', VStr ''x''),
        (''process_event'', VMethod ''process_event''),
        (''apply_decay'', VMethod ''apply_decay''),
        (''recommended_action'', VMethod ''recommended_action'')]"
  let ?ev = "fst (exec_step sample_env sample_subject (advance_step (VInt 899)))"
  have h1: "subscript (advance_step (VInt 899)) ''action'' = Inr (VStr ''advance_time'')"
    by (simp add: advance_step_def subscript_def)
  have h2: "subscript (advance_step (VInt 899)) ''seconds'' = Inr (VInt 899)"
    by (simp add: advance_step_def subscript_def)
  have h3: "py_getattr sample_env sample_subject ''advance_time'' = None"
    by (simp add: py_getattr_def sample_subject_def)
  have "snd (exec_step sample_env sample_subject (advance_step (VInt 899))) = Inr ?s'"
    by (simp add: exec_step_def advance_step_def subscript_def bind_raising_lift_Inr
        py_getattr_def sample_subject_def py_floordiv_def py_range_def numeral_2_eq_2
        bind_res_Inr call_attr_def sample_env_def sample_call_def raising_simps)
  then have h4: "exec_step sample_env sample_subject (advance_step (VInt 899)) = (?ev, Inr ?s')"
    by (simp add: prod_eq_iff)
  from advance_time_decay_calls_int [OF h1 h2 h3 h4]
  have "?ev = [Call ''apply_decay'' [], Call ''apply_decay'' []]"
    by blast
  with h1 h2 h3 show ?thesis by simp
qed

text \<open>
  On a float \<open>seconds\<close> it does not: \<open>seconds // 300\<close> is then a float, which \<open>range\<close>
  refuses, whatever the float and whatever the subject.
\<close>

lemma advance_time_float_raises:
  assumes "subscript step ''action'' = Inr (VStr ''advance_time'')"
      and "subscript step ''seconds'' = Inr (VFloat f)"
      and "py_getattr env state ''advance_time'' = None"
  shows "exec_step env state step = ([], Inl (Raised TypeError))"
  using assms
  by (simp add: exec_step_def bind_raising_lift_Inr bind_raising_lift_Inl py_floordiv_def
      py_range_def)

text \<open>
  Claim C1. Against a subject without \<open>advance_time\<close>, an \<open>advance_time\<close> step is to call
  \<open>apply_decay()\<close> \<open>floor(seconds / 300)\<close> times. The code does not when \<open>seconds\<close> is a
  float. For \<open>seconds = 600.0\<close> on the sample subject, \<open>floor(600.0 / 300)\<close> is 2, and the
  step with the int 600 does make two calls; with the float, \<open>600.0 // 300\<close> is the float
  \<open>2.0\<close>, \<open>range\<close> raises TypeError, \<open>apply_decay()\<close> is not called at all, and the test
  ends with the error line and the verdict Failed.
\<close>

theorem advance_time_float_seconds_fault:
  "py_getattr sample_env sample_subject ''advance_time'' = None
   \<and> nat \<lfloor>(600::real) / 300\<rfloor> = 2
   \<and> fst (exec_step sample_env sample_subject (advance_step (VInt 600)))
       = [Call ''apply_decay'' [], Call ''apply_decay'' []]
   \<and> exec_step sample_env sample_subject (advance_step (VFloat (Finite 600)))
       = ([], Inl (Raised TypeError))
   \<and> run_test sample_env
         (test_doc ''float'' initialize_setup [advance_step (VFloat (Finite 600))] [])
       = ([Print (Running (VStr ''float'') (VStr ''float'')), Call ''EmotionalState'' [],
           Print (Error (VStr ''float'') (VStr ''float'') TypeError)], Inr False)"
proof -
  have a: "py_getattr sample_env sample_subject ''advance_time'' = None"
    by (simp add: py_getattr_def sample_subject_def)
  have b: "fst (exec_step sample_env sample_subject (advance_step (VInt 600)))
             = [Call ''apply_decay'' [], Call ''apply_decay'' []]"
    by (simp add: exec_step_def advance_step_def subscript_def bind_raising_lift_Inr
        py_getattr_def sample_subject_def py_floordiv_def py_range_def numeral_2_eq_2
        bind_res_Inr call_attr_def sample_env_def sample_call_def raising_simps)
  have c: "exec_step sample_env sample_subject (advance_step (VFloat (Finite 600)))
             = ([], Inl (Raised TypeError))"
    by (rule advance_time_float_raises) (simp_all add: advance_step_def subscript_def a)
  have d: "run_test sample_env
             (test_doc ''float'' initialize_setup [advance_step (VFloat (Finite 600))] [])
           = ([Print (Running (VStr ''float'') (VStr ''float'')), Call ''EmotionalState'' [],
               Print (Error (VStr ''float'') (VStr ''float'') TypeError)], Inr False)"
    by (simp add: doc_defs run_defs sample_defs)
  from a b c d show ?thesis by simp
qed

section \<open>Assertions\<close>










section \<open>Path resolution\<close>








section \<open>The reserved path\<close>

lemma py_getattr_setattr:
  "py_setattr s name x = Inr s' \<Longrightarrow> py_getattr env s' name = Some x"
  by (auto simp: py_setattr_def py_getattr_def update_conv' split: pyval.splits)

lemma exec_step_query:
  "subscript step ''action'' = Inr (VStr ''get_recommended_action'') \<Longrightarrow>
   exec_step env s step =
     bind_res (raising (call_attr env s ''recommended_action'' [])) (\<lambda>(r, s').
       raising (lift (py_setattr s' ''_recommended_action'' r)))"
  by (simp add: exec_step_def bind_raising_lift_Inr)

text \<open>
  Claim C7, amended. An assertion on the reserved path \<open>recommended_action\<close> reads the
  attribute \<open>_recommended_action\<close> of the subject. When the subject has no such attribute
  the assertion fails with the line "recommended_action not set", which is not the line of
  a mismatch, and raises nothing. When the subject has it, the assertion passes exactly when
  its value equals the expected value. A \<open>get_recommended_action\<close> step that completes has
  called \<open>recommended_action()\<close> and has stored its result in that attribute.
\<close>

theorem recommended_action_slot:
  assumes p: "subscript assertion ''path'' = Inr (VStr ''recommended_action'')"
  shows "(py_getattr env state ''_recommended_action'' = None \<longrightarrow>
            check_assertion env state assertion = ([Print RecommendedNotSet], Inr False))
       \<and> (py_getattr env state ''_recommended_action'' = Some actual
            \<and> subscript assertion ''expected'' = Inr expected \<longrightarrow>
            check_assertion env state assertion =
              (if py_eq actual expected then ([], Inr True)
               else ([Print (RecommendedNotEqual expected actual)], Inr False)))
       \<and> RecommendedNotSet \<noteq> RecommendedNotEqual expected actual
       \<and> (subscript step ''action'' = Inr (VStr ''get_recommended_action'')
            \<and> exec_step env state0 step = (ev, Inr state1) \<longrightarrow>
            (\<exists>r s. call_attr env state0 ''recommended_action'' [] = (ev, Inr (r, s))
               \<and> py_getattr env state1 ''_recommended_action'' = Some r))"
proof -
  have a: "py_getattr env state ''_recommended_action'' = None \<longrightarrow>
            check_assertion env state assertion = ([Print RecommendedNotSet], Inr False)"
    using p by (simp add: check_assertion_def bind_lift_Inr)
  have b: "py_getattr env state ''_recommended_action'' = Some actual
            \<and> subscript assertion ''expected'' = Inr expected \<longrightarrow>
            check_assertion env state assertion =
              (if py_eq actual expected then ([], Inr True)
               else ([Print (RecommendedNotEqual expected actual)], Inr False))"
    using p by (simp add: check_assertion_def bind_lift_Inr)
  have c: "subscript step ''action'' = Inr (VStr ''get_recommended_action'')
            \<and> exec_step env state0 step = (ev, Inr state1) \<longrightarrow>
            (\<exists>r s. call_attr env state0 ''recommended_action'' [] = (ev, Inr (r, s))
               \<and> py_getattr env state1 ''_recommended_action'' = Some r)"
  proof
    assume h: "subscript step ''action'' = Inr (VStr ''get_recommended_action'')
            \<and> exec_step env state0 step = (ev, Inr state1)"
    then have h1: "subscript step ''action'' = Inr (VStr ''get_recommended_action'')"
      and h: "exec_step env state0 step = (ev, Inr state1)"
      by blast+
    note q = exec_step_query [OF h1, of env state0]
    obtain ev1 r1 where c1: "call_attr env state0 ''recommended_action'' [] = (ev1, r1)"
      by (cases "call_attr env state0 ''recommended_action'' []")
    show "\<exists>r s. call_attr env state0 ''recommended_action'' [] = (ev, Inr (r, s))
               \<and> py_getattr env state1 ''_recommended_action'' = Some r"
    proof (cases r1)
      case (Inl e)
      with h q c1 show ?thesis
        by (simp add: raising_simps bind_res_Inl)
    next
      case (Inr x)
      obtain r s where x: "x = (r, s)" by (cases x)
      from h q c1 Inr x have e: "(ev1 @ fst (raising (lift (py_setattr s ''_recommended_action'' r))),
                 snd (raising (lift (py_setattr s ''_recommended_action'' r)))) = (ev, Inr state1)"
        by (simp add: raising_simps bind_res_Inr split: prod.splits)
      then have "py_setattr s ''_recommended_action'' r = Inr state1" and "ev1 = ev"
        by (cases "py_setattr s ''_recommended_action'' r"; simp add: lift_def raising_simps)+
      with c1 Inr x show ?thesis
        by (simp add: py_getattr_setattr)
    qed
  qed
  show ?thesis using a b c by simp
qed

text \<open>
  On the sample subject the assertion is "not set" before a \<open>get_recommended_action\<close>
  step, and after it compares with the result \<open>none\<close> that the step stored.
\<close>

theorem recommended_action_slot_witness:
  "check_assertion sample_env sample_subject (recommended_doc (VStr ''none''))
     = ([Print RecommendedNotSet], Inr False)
   \<and> exec_step sample_env sample_subject query_step
     = ([Call ''recommended_action'' []], Inr queried_subject)
   \<and> py_getattr sample_env queried_subject ''_recommended_action'' = Some (VStr ''none'')
   \<and> check_assertion sample_env queried_subject (recommended_doc (VStr ''none'')) = ([], Inr True)
   \<and> check_assertion sample_env queried_subject (recommended_doc (VStr ''soothe''))
     = ([Print (RecommendedNotEqual (VStr ''soothe'') (VStr ''none''))], Inr False)"
proof -
  have unset: "py_getattr sample_env sample_subject ''_recommended_action'' = None"
    by (simp add: py_getattr_def sample_subject_def)
  have set: "py_getattr sample_env queried_subject ''_recommended_action'' = Some (VStr ''none'')"
    by (simp add: py_getattr_def queried_subject_def)
  from recommended_action_slot [OF recommended_doc_fields(1), of sample_env sample_subject
         "VStr ''none''"] unset
  have a: "check_assertion sample_env sample_subject (recommended_doc (VStr ''none''))
             = ([Print RecommendedNotSet], Inr False)"
    by simp
  from recommended_action_slot [OF recommended_doc_fields(1), of sample_env queried_subject
         "VStr ''none''" "VStr ''none''" "VStr ''none''"] set recommended_doc_fields(2)
  have b: "check_assertion sample_env queried_subject (recommended_doc (VStr ''none''))
             = ([], Inr True)"
    by simp
  from recommended_action_slot [OF recommended_doc_fields(1), of sample_env queried_subject
         "VStr ''soothe''" "VStr ''none''" "VStr ''soothe''"] set recommended_doc_fields(2)
  have c: "check_assertion sample_env queried_subject (recommended_doc (VStr ''soothe''))
             = ([Print (RecommendedNotEqual (VStr ''soothe'') (VStr ''none''))], Inr False)"
    by simp
  from a b c set sample_query show ?thesis by simp
qed

text \<open>
  Claim C7 as it is written fails: the attribute can be there though no
  \<open>get_recommended_action\<close> step ran. A test whose \<open>initial_state\<close> sets
  \<open>_recommended_action\<close> and that has no step passes its assertion on
  \<open>recommended_action\<close>.
\<close>

theorem recommended_action_preset_counterexample:
  "subscript preset_test ''steps'' = Inr (VList [])
   \<and> run_test sample_env preset_test =
       ([Print (Running (VStr ''preset'') (VStr ''preset'')), Call ''EmotionalState'' [],
         Print (Passed (VStr ''preset'') (VStr ''preset''))], Inr True)"
  by (simp add: preset_run) (simp add: preset_test_def test_doc_def subscript_def)

text \<open>
  Claim C10. An assertion on the reserved path \<open>recommended_action\<close>, on a subject whose
  query was captured, passes exactly when the captured value equals the expected value, and
  prints the line of a mismatch on \<open>recommended_action\<close> when it does not. Its \<open>type\<close>
  and \<open>tolerance\<close> are never read: two assertions with the same \<open>path\<close> and
  \<open>expected\<close> give the same result, whatever else they hold.
\<close>

theorem recommended_action_strict:
  assumes p: "map_of d ''path'' = Some (VStr ''recommended_action'')"
      and x: "map_of d ''expected'' = Some expected"
      and cap: "py_getattr env state ''_recommended_action'' = Some actual"
  shows "check_assertion env state (VDict d) =
           (if py_eq actual expected then ([], Inr True)
            else ([Print (RecommendedNotEqual expected actual)], Inr False))
       \<and> (map_of d' ''path'' = map_of d ''path'' \<and> map_of d' ''expected'' = map_of d ''expected''
            \<longrightarrow> check_assertion env state (VDict d') = check_assertion env state (VDict d))"
  using assms by (simp add: check_assertion_def bind_lift_Inr subscript_def)

text \<open>
  With \<open>none\<close> captured, expecting \<open>soothe\<close> "approximately" within 100 is a plain
  mismatch (on any other path the subtraction of two strs would raise), and expecting
  \<open>none\<close> with an unknown type passes.
\<close>

theorem recommended_action_strict_witness:
  "check_assertion sample_env queried_subject
     (assertion_tol_doc (VStr ''recommended_action'') (VStr ''soothe'')
        (VStr ''approximately'') (VInt 100))
     = ([Print (RecommendedNotEqual (VStr ''soothe'') (VStr ''none''))], Inr False)
   \<and> check_assertion sample_env queried_subject
       (assertion_doc (VStr ''recommended_action'') (VStr ''none'') (VStr ''bogus''))
     = ([], Inr True)"
proof -
  have set: "py_getattr sample_env queried_subject ''_recommended_action'' = Some (VStr ''none'')"
    by (simp add: py_getattr_def queried_subject_def)
  have "check_assertion sample_env queried_subject
          (VDict [(''path'', VStr ''recommended_action''), (''expected'', VStr ''soothe''),
                  (''type'', VStr ''approximately''), (''tolerance'', VInt 100)])
        = ([Print (RecommendedNotEqual (VStr ''soothe'') (VStr ''none''))], Inr False)"
    using recommended_action_strict [where env = sample_env and state = queried_subject
        and actual = "VStr ''none''" and expected = "VStr ''soothe''"
        and d = "[(''path'', VStr ''recommended_action''), (''expected'', VStr ''soothe''),
                  (''type'', VStr ''approximately''), (''tolerance'', VInt 100)]"] set
    by simp
  moreover have "check_assertion sample_env queried_subject
          (VDict [(''path'', VStr ''recommended_action''), (''expected'', VStr ''none''),
                  (''type'', VStr ''bogus'')])
        = ([], Inr True)"
    using recommended_action_strict [where env = sample_env and state = queried_subject
        and actual = "VStr ''none''" and expected = "VStr ''none''"
        and d = "[(''path'', VStr ''recommended_action''), (''expected'', VStr ''none''),
                  (''type'', VStr ''bogus'')]"] set
    by simp
  ultimately show ?thesis
    by (simp add: assertion_doc_def assertion_tol_doc_def)
qed

section \<open>One test\<close>

lemma run_assertions_complete:
  assumes "\<forall>a \<in> set assertions. \<exists>ev ok. check_assertion env state a = (ev, Inr ok)"
  shows "run_assertions env state assertions acc =
           (concat (map (\<lambda>a. fst (check_assertion env state a)) assertions),
            Inr (acc \<and> (\<forall>a \<in> set assertions. snd (check_assertion env state a) = Inr True)))"
  using assms
proof (induction assertions arbitrary: acc)
  case Nil
  then show ?case by simp
next
  case (Cons a rest)
  then obtain ev ok where a: "check_assertion env state a = (ev, Inr ok)"
    by auto
  from Cons have "run_assertions env state rest (acc \<and> ok) =
           (concat (map (\<lambda>a. fst (check_assertion env state a)) rest),
            Inr ((acc \<and> ok) \<and> (\<forall>a \<in> set rest. snd (check_assertion env state a) = Inr True)))"
    by simp
  with a show ?case by (auto simp: bind_res_Inr)
qed

lemma run_assertions_fault:
  assumes "\<forall>a \<in> set before. \<exists>ev ok. check_assertion env state a = (ev, Inr ok)"
      and "check_assertion env state a = (ev_a, Inl e)"
  shows "run_assertions env state (before @ a # rest) acc =
           (concat (map (\<lambda>a. fst (check_assertion env state a)) before) @ ev_a, Inl e)"
  using assms(1)
proof (induction before arbitrary: acc)
  case Nil
  with assms(2) show ?case by (simp add: bind_res_Inl)
next
  case (Cons b before)
  then obtain ev ok where b: "check_assertion env state b = (ev, Inr ok)"
    by auto
  from Cons have "run_assertions env state (before @ a # rest) (acc \<and> ok) =
           (concat (map (\<lambda>a. fst (check_assertion env state a)) before) @ ev_a, Inl e)"
    by simp
  with b show ?case by (simp add: bind_res_Inr)
qed

lemma check_assertion_reports:
  "check_assertion env state a = (ev, Inr False) \<Longrightarrow> \<exists>d. ev = [Print d]"
  by (auto simp: check_assertion_def assert_value_def bind_res_def lift_def
      split: sum.splits option.splits if_splits exc.splits prod.splits)

lemma run_test_of_body:
  assumes "subscript test ''id'' = Inr test_id" and "subscript test ''name'' = Inr test_name"
  shows "run_test_body env test = (ev, Inr ok) \<Longrightarrow>
           run_test env test =
             (Print (Running test_id test_name) # ev
                @ [Print (if ok then Passed test_id test_name else Failed test_id test_name)],
              Inr ok)"
    and "run_test_body env test = (ev, Inl (Raised e)) \<Longrightarrow>
           run_test env test =
             (Print (Running test_id test_name) # ev @ [Print (Error test_id test_name e)],
              Inr False)"
    and "run_test_body env test = (ev, Inl (Returned b)) \<Longrightarrow>
           run_test env test = (Print (Running test_id test_name) # ev, Inr b)"
  using assms by (cases ok; simp add: run_test_def bind_lift_Inr)+

text \<open>
  Claim C4, amended. In a test that reaches its assertions, when no assertion raises, every
  assertion is evaluated, in order, whatever the ones before it gave: the output of the
  test holds the output of every assertion, each failed assertion has printed its line, and
  the verdict is Passed when all of them passed and Failed otherwise. When an assertion
  raises (a field of the assertion is missing, or \<open>approximately\<close> meets a value that is
  not a number), the assertions before it have been evaluated, the ones after it are not,
  and the test ends with the error line and the verdict Failed.
\<close>

theorem assertions_all_evaluated:
  assumes tid: "subscript test ''id'' = Inr test_id"
      and tname: "subscript test ''name'' = Inr test_name"
      and reach: "run_to_assertions env test = (ev0, Inr (state, assertions))"
  shows "((\<forall>a \<in> set assertions. \<exists>ev ok. check_assertion env state a = (ev, Inr ok)) \<longrightarrow>
          run_test env test =
            (Print (Running test_id test_name) # ev0
               @ concat (map (\<lambda>a. fst (check_assertion env state a)) assertions)
               @ [Print (if \<forall>a \<in> set assertions. snd (check_assertion env state a) = Inr True
                         then Passed test_id test_name else Failed test_id test_name)],
             Inr (\<forall>a \<in> set assertions. snd (check_assertion env state a) = Inr True))
          \<and> (\<forall>a \<in> set assertions. snd (check_assertion env state a) = Inr False \<longrightarrow>
                (\<exists>d. fst (check_assertion env state a) = [Print d])))
       \<and> (assertions = before @ a # rest
            \<and> (\<forall>b \<in> set before. \<exists>ev ok. check_assertion env state b = (ev, Inr ok))
            \<and> check_assertion env state a = (ev_a, Inl e) \<longrightarrow>
          run_test env test =
            (Print (Running test_id test_name) # ev0
               @ concat (map (\<lambda>a. fst (check_assertion env state a)) before) @ ev_a
               @ [Print (Error test_id test_name e)],
             Inr False))"
proof (intro conjI impI)
  assume ok: "\<forall>a \<in> set assertions. \<exists>ev ok. check_assertion env state a = (ev, Inr ok)"
  have "run_test_body env test =
          (ev0 @ concat (map (\<lambda>a. fst (check_assertion env state a)) assertions),
           Inr (\<forall>a \<in> set assertions. snd (check_assertion env state a) = Inr True))"
    using reach run_assertions_complete [OF ok, of True]
    by (simp add: run_test_body_def bind_res_Inr raising_simps)
  from run_test_of_body(1) [OF tid tname this] show "run_test env test =
            (Print (Running test_id test_name) # ev0
               @ concat (map (\<lambda>a. fst (check_assertion env state a)) assertions)
               @ [Print (if \<forall>a \<in> set assertions. snd (check_assertion env state a) = Inr True
                         then Passed test_id test_name else Failed test_id test_name)],
             Inr (\<forall>a \<in> set assertions. snd (check_assertion env state a) = Inr True))"
    by simp
next
  show "\<forall>a \<in> set assertions. snd (check_assertion env state a) = Inr False \<longrightarrow>
                (\<exists>d. fst (check_assertion env state a) = [Print d])"
  proof (intro ballI impI)
    fix a assume "snd (check_assertion env state a) = Inr False"
    then have "check_assertion env state a = (fst (check_assertion env state a), Inr False)"
      by (simp add: prod_eq_iff)
    then show "\<exists>d. fst (check_assertion env state a) = [Print d]"
      by (rule check_assertion_reports)
  qed
next
  assume h: "assertions = before @ a # rest
            \<and> (\<forall>b \<in> set before. \<exists>ev ok. check_assertion env state b = (ev, Inr ok))
            \<and> check_assertion env state a = (ev_a, Inl e)"
  then have h1: "assertions = before @ a # rest"
    and h2: "\<forall>b \<in> set before. \<exists>ev ok. check_assertion env state b = (ev, Inr ok)"
    and h3: "check_assertion env state a = (ev_a, Inl e)"
    by blast+
  have "run_test_body env test =
          (ev0 @ concat (map (\<lambda>a. fst (check_assertion env state a)) before) @ ev_a,
           Inl (Raised e))"
    using reach h1 run_assertions_fault [OF h2 h3, of rest True]
    by (simp add: run_test_body_def bind_res_Inr raising_simps)
  from run_test_of_body(2) [OF tid tname this] show "run_test env test =
            (Print (Running test_id test_name) # ev0
               @ concat (map (\<lambda>a. fst (check_assertion env state a)) before) @ ev_a
               @ [Print (Error test_id test_name e)],
             Inr False)"
    by simp
qed

text \<open>
  The sample test with three assertions evaluates all three, the first two failing; the
  sample test whose first assertion raises TypeError ends there.
\<close>

theorem assertions_all_evaluated_witness:
  "run_test sample_env collecting_test =
     ([Print (Running (VStr ''collecting'') (VStr ''collecting'')), Call ''EmotionalState'' [],
       Print (CannotAccess (VStr ''missing'')
                (AttributeError (cannot_access ''missing'' sample_subject))),
       Print (NotEqual (VStr ''label'') (VStr ''y'') (VStr ''x'')),
       Print (Failed (VStr ''collecting'') (VStr ''collecting''))], Inr False)
   \<and> run_test sample_env faulting_test =
     ([Print (Running (VStr ''faulting'') (VStr ''faulting'')), Call ''EmotionalState'' [],
       Print (Error (VStr ''faulting'') (VStr ''faulting'') TypeError)], Inr False)"
proof -
  let ?a1 = "assertion_doc (VStr ''missing'') (VInt 0) (VStr ''equals'')"
  let ?a2 = "assertion_doc (VStr ''label'') (VStr ''y'') (VStr ''equals'')"
  let ?a3 = "assertion_doc (VStr ''calm'') (VBool True) (VStr ''equals'')"
  let ?b1 = "assertion_doc (VStr ''label'') (VInt 1) (VStr ''approximately'')"
  have ok: "\<forall>a \<in> set [?a1, ?a2, ?a3]. \<exists>ev ok. check_assertion sample_env sample_subject a = (ev, Inr ok)"
    by (auto simp: sample_checks)
  have none: "\<forall>b \<in> set []. \<exists>ev ok. check_assertion sample_env sample_subject b = (ev, Inr ok)"
    by simp
  note c = test_doc_fields [of "''collecting''" initialize_setup "[]" "[?a1, ?a2, ?a3]"]
    sample_reach [of "''collecting''" "[?a1, ?a2, ?a3]"]
  note f = test_doc_fields [of "''faulting''" initialize_setup "[]" "[?b1, ?a1]"]
    sample_reach [of "''faulting''" "[?b1, ?a1]"]
  from assertions_all_evaluated [OF c] ok
  have "run_test sample_env (test_doc ''collecting'' initialize_setup [] [?a1, ?a2, ?a3]) =
     ([Print (Running (VStr ''collecting'') (VStr ''collecting'')), Call ''EmotionalState'' [],
       Print (CannotAccess (VStr ''missing'')
                (AttributeError (cannot_access ''missing'' sample_subject))),
       Print (NotEqual (VStr ''label'') (VStr ''y'') (VStr ''x'')),
       Print (Failed (VStr ''collecting'') (VStr ''collecting''))], Inr False)"
    by (simp add: sample_checks)
  moreover
  from assertions_all_evaluated [OF f, where before = "[]"
           and a = ?b1 and rest = "[?a1]" and ev_a = "[]" and e = TypeError]
  have "run_test sample_env (test_doc ''faulting'' initialize_setup [] [?b1, ?a1]) =
     ([Print (Running (VStr ''faulting'') (VStr ''faulting'')), Call ''EmotionalState'' [],
       Print (Error (VStr ''faulting'') (VStr ''faulting'') TypeError)], Inr False)"
    by (simp add: sample_checks)
  ultimately show ?thesis
    by (simp add: collecting_test_def faulting_test_def)
qed

text \<open>
  Claim C4 as it is written fails: in \<open>faulting_test\<close> the first assertion raises
  TypeError, and the second, which on its own fails with a line of its own, is never
  evaluated: its line is not in the output of the test.
\<close>

theorem assertions_fault_counterexample:
  "run_to_assertions sample_env faulting_test =
     ([Call ''EmotionalState'' []],
      Inr (sample_subject,
           [assertion_doc (VStr ''label'') (VInt 1) (VStr ''approximately''),
            assertion_doc (VStr ''missing'') (VInt 0) (VStr ''equals'')]))
   \<and> check_assertion sample_env sample_subject
         (assertion_doc (VStr ''missing'') (VInt 0) (VStr ''equals''))
       = ([Print (CannotAccess (VStr ''missing'')
                   (AttributeError (cannot_access ''missing'' sample_subject)))], Inr False)
   \<and> run_test sample_env faulting_test =
       ([Print (Running (VStr ''faulting'') (VStr ''faulting'')), Call ''EmotionalState'' [],
         Print (Error (VStr ''faulting'') (VStr ''faulting'') TypeError)], Inr False)
   \<and> Print (CannotAccess (VStr ''missing'')
               (AttributeError (cannot_access ''missing'' sample_subject)))
       \<notin> set (fst (run_test sample_env faulting_test))"
  by (simp add: faulting_run sample_checks(1)) (simp add: faulting_test_def sample_reach)

section \<open>The suite\<close>

text \<open>
  No \<open>return True\<close> stands between the start of \<open>try\<close> and the end of the assertions.
\<close>

lemma bind_res_no_return:
  assumes "snd m \<noteq> Inl (Returned True)" and "\<And>x. snd (f x) \<noteq> Inl (Returned True)"
  shows "snd (bind_res m f) \<noteq> Inl (Returned True)"
proof (cases m)
  case (Pair ev r)
  show ?thesis
  proof (cases r)
    case (Inl a)
    with Pair assms(1) show ?thesis by (simp add: bind_res_Inl)
  next
    case (Inr x)
    with Pair assms(2) [of x] show ?thesis
      by (cases "f x") (simp add: bind_res_Inr)
  qed
qed

lemma raising_no_return: "snd (raising m) \<noteq> Inl (Returned b)"
  by (cases m; cases "snd m") (auto simp: raising_def)

lemma no_return_basic:
  "snd (ev, Inr x) \<noteq> Inl (Returned True)"
  "snd (ev, Inl (Returned False)) \<noteq> Inl (Returned True)"
  "snd a \<noteq> Inl (Returned True) \<Longrightarrow> snd b \<noteq> Inl (Returned True)
     \<Longrightarrow> snd (if c then a else b) \<noteq> Inl (Returned True)"
  "(\<And>u w. snd (g u w) \<noteq> Inl (Returned True))
     \<Longrightarrow> snd (case p of (u, w) \<Rightarrow> g u w) \<noteq> Inl (Returned True)"
  "(\<And>u. snd (h u) \<noteq> Inl (Returned True)) \<Longrightarrow> (\<And>w. snd (k w) \<noteq> Inl (Returned True))
     \<Longrightarrow> snd (case s of Inl u \<Rightarrow> h u | Inr w \<Rightarrow> k w) \<noteq> Inl (Returned True)"
  by (simp_all split: prod.splits sum.splits)

lemmas no_return = bind_res_no_return raising_no_return no_return_basic

lemma exec_step_no_return: "snd (exec_step env state step) \<noteq> Inl (Returned True)"
  unfolding exec_step_def by (intro no_return)

lemma run_steps_no_return: "snd (run_steps env state steps) \<noteq> Inl (Returned True)"
proof (induction steps arbitrary: state)
  case Nil
  show ?case by simp
next
  case (Cons step steps)
  have "snd (bind_res (exec_step env state step) (\<lambda>state'. run_steps env state' steps))
          \<noteq> Inl (Returned True)"
    by (intro bind_res_no_return exec_step_no_return Cons.IH)
  then show ?case by simp
qed

lemma run_setup_no_return: "snd (run_setup env test) \<noteq> Inl (Returned True)"
  unfolding run_setup_def by (intro no_return)

lemma run_test_body_no_return: "snd (run_test_body env test) \<noteq> Inl (Returned True)"
  unfolding run_test_body_def run_to_assertions_def
  by (intro no_return run_setup_no_return run_steps_no_return)

lemma run_test_verdict:
  assumes "subscript test ''id'' = Inr test_id" and "subscript test ''name'' = Inr test_name"
  shows "snd (run_test env test) = Inr (snd (run_test_body env test) = Inr True)"
proof (cases "run_test_body env test")
  case (Pair ev r)
  show ?thesis
  proof (cases r)
    case (Inr ok)
    with Pair run_test_of_body(1) [OF assms, of env ev ok] show ?thesis by simp
  next
    case (Inl a)
    show ?thesis
    proof (cases a)
      case (Raised e)
      with Inl Pair run_test_of_body(2) [OF assms, of env ev e] show ?thesis by simp
    next
      case (Returned b)
      with Inl Pair run_test_body_no_return [of env test] have "\<not> b" by auto
      with Returned Inl Pair run_test_of_body(3) [OF assms, of env ev b] show ?thesis by simp
    qed
  qed
qed


lemma run_tests_loop_results:
  assumes "\<forall>t \<in> set tests. \<exists>i n. subscript t ''id'' = Inr i \<and> subscript t ''name'' = Inr n"
  shows "\<exists>rs'. run_tests_loop env tests rs p f =
           (concat (map (\<lambda>t. fst (run_test env t)) tests), rs @ rs',
            Inr (p + length (filter (\<lambda>t. snd (run_test env t) = Inr True) tests),
                 f + length (filter (\<lambda>t. snd (run_test env t) \<noteq> Inr True) tests)))
         \<and> map status rs' =
             map (\<lambda>t. if snd (run_test env t) = Inr True then ''PASSED'' else ''FAILED'') tests
         \<and> map (\<lambda>r. Inr (res_id r)) rs' = map (\<lambda>t. subscript t ''id'') tests
         \<and> map (\<lambda>r. Inr (res_name r)) rs' = map (\<lambda>t. subscript t ''name'') tests"
  using assms
proof (induction tests arbitrary: rs p f)
  case Nil
  show ?case by simp
next
  case (Cons t tests)
  then obtain i n where tid: "subscript t ''id'' = Inr i" and tname: "subscript t ''name'' = Inr n"
    by auto
  define ok where "ok = (snd (run_test_body env t) = Inr True)"
  have v: "snd (run_test env t) = Inr ok"
    unfolding ok_def by (rule run_test_verdict [OF tid tname])
  then have rt: "run_test env t = (fst (run_test env t), Inr ok)"
    by (simp add: prod_eq_iff)
  let ?r = "\<lparr>res_id = i, res_name = n, status = (if ok then ''PASSED'' else ''FAILED'')\<rparr>"
  from Cons.prems have "\<forall>t \<in> set tests. \<exists>i n. subscript t ''id'' = Inr i \<and> subscript t ''name'' = Inr n"
    by simp
  from Cons.IH [OF this, of "rs @ [?r]" "if ok then p + 1 else p" "if ok then f else f + 1"]
  obtain rs' where
    ih: "run_tests_loop env tests (rs @ [?r]) (if ok then p + 1 else p) (if ok then f else f + 1) =
           (concat (map (\<lambda>t. fst (run_test env t)) tests), (rs @ [?r]) @ rs',
            Inr ((if ok then p + 1 else p) + length (filter (\<lambda>t. snd (run_test env t) = Inr True) tests),
                 (if ok then f else f + 1) + length (filter (\<lambda>t. snd (run_test env t) \<noteq> Inr True) tests)))"
    and st: "map status rs' =
             map (\<lambda>t. if snd (run_test env t) = Inr True then ''PASSED'' else ''FAILED'') tests"
    and ids: "map (\<lambda>r. Inr (res_id r)) rs' = map (\<lambda>t. subscript t ''id'') tests"
    and names: "map (\<lambda>r. Inr (res_name r)) rs' = map (\<lambda>t. subscript t ''name'') tests"
    by blast
  have step: "run_tests_loop env (t # tests) rs p f =
          (case run_tests_loop env tests (rs @ [?r]) (if ok then p + 1 else p)
                  (if ok then f else f + 1) of
             (ev', r) \<Rightarrow> (fst (run_test env t) @ ev', r))"
    by (subst run_tests_loop.simps, subst rt) (simp add: tid tname)
  have "run_tests_loop env (t # tests) rs p f =
           (concat (map (\<lambda>t. fst (run_test env t)) (t # tests)), rs @ (?r # rs'),
            Inr (p + length (filter (\<lambda>t. snd (run_test env t) = Inr True) (t # tests)),
                 f + length (filter (\<lambda>t. snd (run_test env t) \<noteq> Inr True) (t # tests))))"
    unfolding step ih using v by simp
  moreover have "map status (?r # rs') =
             map (\<lambda>t. if snd (run_test env t) = Inr True then ''PASSED'' else ''FAILED'') (t # tests)"
    using st v by simp
  moreover have "map (\<lambda>r. Inr (res_id r)) (?r # rs') = map (\<lambda>t. subscript t ''id'') (t # tests)"
    using ids tid by simp
  moreover have "map (\<lambda>r. Inr (res_name r)) (?r # rs') = map (\<lambda>t. subscript t ''name'') (t # tests)"
    using names tname by simp
  ultimately show ?case by blast
qed



lemma run_tests_loop_counts:
  "run_tests_loop env tests rs p f = (ev, rs', Inr (p', f')) \<Longrightarrow>
   \<exists>new. rs' = rs @ new
     \<and> p' = p + length (filter (\<lambda>r. status r = ''PASSED'') new)
     \<and> f' = f + length (filter (\<lambda>r. status r = ''FAILED'') new)
     \<and> length new = length tests
     \<and> (\<forall>r \<in> set new. status r = ''PASSED'' \<or> status r = ''FAILED'')"
proof (induction tests arbitrary: rs p f ev)
  case Nil
  then show ?case by simp
next
  case (Cons t tests)
  obtain ev1 r1 where rt: "run_test env t = (ev1, r1)" by (cases "run_test env t")
  from Cons.prems rt obtain ok where r1: "r1 = Inr ok" by (cases r1) simp_all
  from Cons.prems rt r1 obtain i where tid: "subscript t ''id'' = Inr i"
    by (cases "subscript t ''id''") simp_all
  from Cons.prems rt r1 tid obtain n where tname: "subscript t ''name'' = Inr n"
    by (cases "subscript t ''name''") simp_all
  let ?r = "\<lparr>res_id = i, res_name = n, status = (if ok then ''PASSED'' else ''FAILED'')\<rparr>"
  obtain ev2 rs2 r2 where
    rec: "run_tests_loop env tests (rs @ [?r]) (if ok then p + 1 else p) (if ok then f else f + 1)
            = (ev2, rs2, r2)"
    by (metis prod_cases3)
  from Cons.prems rt r1 tid tname rec have "rs2 = rs'" and "r2 = Inr (p', f')"
    by simp_all
  with rec Cons.IH [of "rs @ [?r]" "if ok then p + 1 else p" "if ok then f else f + 1" ev2]
  obtain new where
    n: "rs' = (rs @ [?r]) @ new"
       "p' = (if ok then p + 1 else p) + length (filter (\<lambda>r. status r = ''PASSED'') new)"
       "f' = (if ok then f else f + 1) + length (filter (\<lambda>r. status r = ''FAILED'') new)"
       "length new = length tests"
       "\<forall>r \<in> set new. status r = ''PASSED'' \<or> status r = ''FAILED''"
    by blast
  have "rs' = rs @ (?r # new)
     \<and> p' = p + length (filter (\<lambda>r. status r = ''PASSED'') (?r # new))
     \<and> f' = f + length (filter (\<lambda>r. status r = ''FAILED'') (?r # new))
     \<and> length (?r # new) = length (t # tests)
     \<and> (\<forall>r \<in> set (?r # new). status r = ''PASSED'' \<or> status r = ''FAILED'')"
    using n by simp
  then show ?case by blast
qed

lemma run_all_tests_verdict:
  assumes "run_all_tests env v = (ev, v', Inr ok)"
  shows "\<exists>new. results v' = results v @ new
           \<and> ok = (length (filter (\<lambda>r. status r = ''FAILED'') new) = 0)
           \<and> (\<forall>r \<in> set new. status r = ''PASSED'' \<or> status r = ''FAILED'')"
proof -
  from assms obtain version where a: "subscript (test_data v) ''version'' = Inr version"
    by (cases "subscript (test_data v) ''version''") (simp_all add: run_all_tests_def)
  from assms a obtain spec where b: "subscript (test_data v) ''spec_version'' = Inr spec"
    by (cases "subscript (test_data v) ''spec_version''") (simp_all add: run_all_tests_def)
  from assms a b obtain tests_v where c: "subscript (test_data v) ''tests'' = Inr tests_v"
    by (cases "subscript (test_data v) ''tests''") (simp_all add: run_all_tests_def)
  from assms a b c obtain tests where d: "py_iter tests_v = Inr tests"
    by (cases "py_iter tests_v") (simp_all add: run_all_tests_def)
  obtain ev1 rs r where l: "run_tests_loop env tests (results v) 0 0 = (ev1, rs, r)"
    by (metis prod_cases3)
  from assms a b c d l obtain pf where "r = Inr pf"
    by (cases r) (simp_all add: run_all_tests_def Let_def)
  then obtain p f where r: "r = Inr (p, f)"
    by (cases pf) simp
  from assms a b c d l r have v': "results v' = rs" and ok: "ok = (f = 0)"
    by (auto simp: run_all_tests_def Let_def split: if_splits)
  from run_tests_loop_counts [OF l [unfolded r]] v' ok show ?thesis
    by auto
qed

text \<open>
  Claim C9. When \<open>run_all_tests\<close> returns, it returns True exactly when none of the results
  it has added is FAILED. The statement of the report says "fully conformant" exactly when
  the report's count of failed tests is zero, and "NOT conformant" otherwise. For a
  validator that starts without results the two agree: \<open>run_all_tests\<close> returned True
  exactly when the report made after it counts no failed test. A suite without tests gives
  True; and on a suite document that has its version fields and whose tests have an
  \<open>id\<close> and a \<open>name\<close>, \<open>run_all_tests\<close> does return, with True exactly when every test
  passed.
\<close>

theorem conformant_iff_no_failure:
  "(run_all_tests env v = (ev, v', Inr ok) \<longrightarrow>
      (\<exists>new. results v' = results v @ new
         \<and> ok = (length (filter (\<lambda>r. status r = ''FAILED'') new) = 0)))
   \<and> (generate_report env w = (ev2, Inr rep) \<longrightarrow>
        tr_failed rep = length (results w) - length (filter (\<lambda>r. status r = ''PASSED'') (results w))
        \<and> conformance_statement rep =
            ''This implementation is ''
            @ (if tr_failed rep = 0 then ''fully conformant'' else ''NOT conformant'')
            @ '' with the Aifeels Specification v'' @ py_str env (spec_version rep) @ ''.''
        \<and> (conformance_statement rep =
              ''This implementation is fully conformant with the Aifeels Specification v''
              @ py_str env (spec_version rep) @ ''.'') = (tr_failed rep = 0))
   \<and> (results v = [] \<and> run_all_tests env v = (ev, v', Inr ok)
        \<and> generate_report env v' = (ev2, Inr rep) \<longrightarrow> ok = (tr_failed rep = 0))
   \<and> (subscript (test_data v) ''version'' = Inr version
        \<and> subscript (test_data v) ''spec_version'' = Inr spec
        \<and> subscript (test_data v) ''tests'' = Inr (VList []) \<longrightarrow>
        snd (snd (run_all_tests env v)) = Inr True)
   \<and> (subscript (test_data v) ''version'' = Inr version
        \<and> subscript (test_data v) ''spec_version'' = Inr spec
        \<and> subscript (test_data v) ''tests'' = Inr (VList tests)
        \<and> (\<forall>t \<in> set tests. \<exists>i n. subscript t ''id'' = Inr i \<and> subscript t ''name'' = Inr n)
        \<longrightarrow>
        snd (snd (run_all_tests env v)) = Inr (\<forall>t \<in> set tests. snd (run_test env t) = Inr True))"
proof (intro conjI impI)
  assume h: "subscript (test_data v) ''version'' = Inr version
        \<and> subscript (test_data v) ''spec_version'' = Inr spec
        \<and> subscript (test_data v) ''tests'' = Inr (VList tests)
        \<and> (\<forall>t \<in> set tests. \<exists>i n. subscript t ''id'' = Inr i \<and> subscript t ''name'' = Inr n)"
  then have wf: "\<forall>t \<in> set tests. \<exists>i n. subscript t ''id'' = Inr i \<and> subscript t ''name'' = Inr n"
    by blast
  from run_tests_loop_results [OF wf, of env "results v" 0 0] obtain rs' where
    l: "run_tests_loop env tests (results v) 0 0 =
          (concat (map (\<lambda>t. fst (run_test env t)) tests), results v @ rs',
           Inr (0 + length (filter (\<lambda>t. snd (run_test env t) = Inr True) tests),
                0 + length (filter (\<lambda>t. snd (run_test env t) \<noteq> Inr True) tests)))"
    by blast
  have "(length (filter (\<lambda>t. snd (run_test env t) \<noteq> Inr True) tests) = 0)
          = (\<forall>t \<in> set tests. snd (run_test env t) = Inr True)"
    by (simp add: filter_empty_conv)
  with h l show "snd (snd (run_all_tests env v))
                   = Inr (\<forall>t \<in> set tests. snd (run_test env t) = Inr True)"
    by (simp add: run_all_tests_def py_iter_def Let_def)
next
  assume "run_all_tests env v = (ev, v', Inr ok)"
  from run_all_tests_verdict [OF this]
  show "\<exists>new. results v' = results v @ new
         \<and> ok = (length (filter (\<lambda>r. status r = ''FAILED'') new) = 0)"
    by blast
next
  assume g: "generate_report env w = (ev2, Inr rep)"
  then obtain spec where a: "subscript (test_data w) ''spec_version'' = Inr spec"
    by (cases "subscript (test_data w) ''spec_version''")
       (simp_all add: generate_report_def Let_def bind_lift_Inl)
  from g a obtain version where b: "subscript (test_data w) ''version'' = Inr version"
    by (cases "subscript (test_data w) ''version''")
       (simp_all add: generate_report_def Let_def bind_lift_Inl bind_lift_Inr)
  from g a b show f: "tr_failed rep = length (results w) - length (filter (\<lambda>r. status r = ''PASSED'') (results w))"
    by (auto simp: generate_report_unfold Let_def bind_lift_Inr split: if_splits)
  from g a b show s: "conformance_statement rep =
            ''This implementation is ''
            @ (if tr_failed rep = 0 then ''fully conformant'' else ''NOT conformant'')
            @ '' with the Aifeels Specification v'' @ py_str env (spec_version rep) @ ''.''"
    by (auto simp: generate_report_unfold Let_def bind_lift_Inr split: if_splits)
  show "(conformance_statement rep =
              ''This implementation is fully conformant with the Aifeels Specification v''
              @ py_str env (spec_version rep) @ ''.'') = (tr_failed rep = 0)"
    unfolding s by simp
next
  assume h: "results v = [] \<and> run_all_tests env v = (ev, v', Inr ok)
        \<and> generate_report env v' = (ev2, Inr rep)"
  then have e: "results v = []" and r: "run_all_tests env v = (ev, v', Inr ok)"
    and g: "generate_report env v' = (ev2, Inr rep)"
    by blast+
  from run_all_tests_verdict [OF r] e obtain new where
    n: "results v' = new" "ok = (length (filter (\<lambda>r. status r = ''FAILED'') new) = 0)"
       "\<forall>r \<in> set new. status r = ''PASSED'' \<or> status r = ''FAILED''"
    by auto
  from g obtain spec where a: "subscript (test_data v') ''spec_version'' = Inr spec"
    by (cases "subscript (test_data v') ''spec_version''")
       (simp_all add: generate_report_def Let_def bind_lift_Inl)
  from g a obtain version where b: "subscript (test_data v') ''version'' = Inr version"
    by (cases "subscript (test_data v') ''version''")
       (simp_all add: generate_report_def Let_def bind_lift_Inl bind_lift_Inr)
  from g a b have f: "tr_failed rep = length new - length (filter (\<lambda>r. status r = ''PASSED'') new)"
    using n(1)
    by (auto simp: generate_report_unfold Let_def bind_lift_Inr split: if_splits)
  have "filter (\<lambda>r. status r = ''FAILED'') new = filter (\<lambda>r. status r \<noteq> ''PASSED'') new"
    using n(3) by (intro filter_cong) auto
  moreover have "length (filter (\<lambda>r. status r \<noteq> ''PASSED'') new)
      = length new - length (filter (\<lambda>r. status r = ''PASSED'') new)"
    using sum_length_filter_compl [of "\<lambda>r. status r = ''PASSED''" new] by simp
  ultimately show "ok = (tr_failed rep = 0)"
    using n(2) f by simp
next
  assume "subscript (test_data v) ''version'' = Inr version
        \<and> subscript (test_data v) ''spec_version'' = Inr spec
        \<and> subscript (test_data v) ''tests'' = Inr (VList [])"
  then show "snd (snd (run_all_tests env v)) = Inr True"
    by (simp add: run_all_tests_def py_iter_def)
qed

text \<open>
  The empty suite is conformant; the suite of the one test with the unknown step is not,
  and its report says so.
\<close>

theorem conformant_iff_no_failure_witness:
  "snd (snd (run_all_tests sample_env \<lparr>test_data = sample_suite [], results = []\<rparr>)) = Inr True
   \<and> (\<exists>ev v'. run_all_tests sample_env \<lparr>test_data = sample_suite [teleport_test], results = []\<rparr>
                 = (ev, v', Inr False)
         \<and> map status (results v') = [''FAILED'']
         \<and> (\<exists>ev2 rep. generate_report sample_env v' = (ev2, Inr rep)
               \<and> tr_failed rep = 1
               \<and> conformance_statement rep =
                   ''This implementation is NOT conformant with the Aifeels Specification v0.1.''))"
proof -
  let ?v0 = "\<lparr>test_data = sample_suite [], results = []\<rparr>"
  let ?v1 = "\<lparr>test_data = sample_suite [teleport_test], results = []\<rparr>"
  let ?r = "\<lparr>res_id = VStr ''teleport'', res_name = VStr ''teleport'', status = ''FAILED''\<rparr>"
  let ?v1' = "\<lparr>test_data = sample_suite [teleport_test], results = [?r]\<rparr>"
  have k: "subscript (test_data ?v0) ''version'' = Inr (VStr ''1.0'')
        \<and> subscript (test_data ?v0) ''spec_version'' = Inr (VStr ''0.1'')
        \<and> subscript (test_data ?v0) ''tests'' = Inr (VList [])"
    by (simp add: sample_suite_fields)
  from conformant_iff_no_failure [where env = sample_env and v = ?v0
         and version = "VStr ''1.0''" and spec = "VStr ''0.1''"] k
  have a: "snd (snd (run_all_tests sample_env ?v0)) = Inr True"
    by blast
  have run: "run_all_tests sample_env ?v1 =
          ([Print (SuiteVersion (VStr ''1.0'')), Print (SpecVersion (VStr ''0.1'')),
            Print (TestingImplementation (VStr ''aifeels'')), Print Rule,
            Print (Running (VStr ''teleport'') (VStr ''teleport'')), Call ''EmotionalState'' [],
            Print (UnknownStepAction (VStr ''teleport'')),
            Print Rule, Print (ResultsLine 0 1), Print NonConformant],
           ?v1', Inr False)"
    by (simp add: run_all_tests_def sample_suite_fields py_iter_def teleport_run)
       (simp add: teleport_test_def test_doc_fields sample_env_def)
  obtain ev2 r where g: "generate_report sample_env ?v1' = (ev2, r)"
    by (cases "generate_report sample_env ?v1'")
  have "\<exists>rep. r = Inr rep"
    using g by (auto simp: generate_report_unfold Let_def sample_suite_fields bind_lift_Inr)
  then obtain rep where r: "r = Inr rep" by blast
  from conformant_iff_no_failure [where env = sample_env and w = ?v1' and ?ev2.0 = ev2
         and rep = rep] g r
  have "tr_failed rep = length (results ?v1')
            - length (filter (\<lambda>r. status r = ''PASSED'') (results ?v1'))"
    and "conformance_statement rep =
            ''This implementation is ''
            @ (if tr_failed rep = 0 then ''fully conformant'' else ''NOT conformant'')
            @ '' with the Aifeels Specification v'' @ py_str sample_env (spec_version rep) @ ''.''"
    by blast+
  moreover have "spec_version rep = VStr ''0.1''"
    using g r by (auto simp: generate_report_unfold Let_def sample_suite_fields bind_lift_Inr)
  ultimately have "tr_failed rep = 1"
    and "conformance_statement rep =
           ''This implementation is NOT conformant with the Aifeels Specification v0.1.''"
    by (simp_all add: sample_env_def)
  with g r run a show ?thesis by simp
qed

section \<open>The report\<close>

lemma generate_report_no_arithmetic_fault:
  "snd (generate_report env v) \<noteq> Inl ZeroDivisionError"
  "snd (generate_report env v) \<noteq> Inl OverflowError"
  by (auto simp: generate_report_unfold Let_def bind_res_def lift_def subscript_def
        split: sum.splits pyval.splits option.splits prod.splits)

text \<open>
  Claim C8, amended. Nothing in \<open>generate_report\<close> divides by zero or overflows, and for a
  suite document that has its two version fields it returns a report, whatever the
  results. With \<open>total\<close> the number of results and \<open>passed\<close> the number of them that are
  PASSED, its \<open>pass_rate\<close> is the int 0 when there is no result and otherwise the float that
  \<open>passed / total * 100\<close> is in Python: the quotient rounded to the nearest double, times
  100, rounded to the nearest double again.
\<close>

theorem pass_rate_value:
  "snd (generate_report env v) \<noteq> Inl ZeroDivisionError
   \<and> snd (generate_report env v) \<noteq> Inl OverflowError
   \<and> (subscript (test_data v) ''spec_version'' = Inr spec
        \<and> subscript (test_data v) ''version'' = Inr version \<longrightarrow>
      (\<exists>rep. generate_report env v = ([Print ReportWritten], Inr rep)
         \<and> tr_total rep = length (results v)
         \<and> tr_passed rep = length (filter (\<lambda>r. status r = ''PASSED'') (results v))
         \<and> tr_pass_rate rep =
             (if tr_total rep > 0
              then VFloat (round_float env
                     (round_real env (real (tr_passed rep) / real (tr_total rep))
                        * round_real env 100))
              else VInt 0)
         \<and> (results v = [] \<longrightarrow> tr_pass_rate rep = VInt 0)))"
proof (intro conjI impI)
  show "snd (generate_report env v) \<noteq> Inl ZeroDivisionError"
    by (rule generate_report_no_arithmetic_fault)
next
  show "snd (generate_report env v) \<noteq> Inl OverflowError"
    by (rule generate_report_no_arithmetic_fault)
next
  assume h: "subscript (test_data v) ''spec_version'' = Inr spec
        \<and> subscript (test_data v) ''version'' = Inr version"
  show "\<exists>rep. generate_report env v = ([Print ReportWritten], Inr rep)
         \<and> tr_total rep = length (results v)
         \<and> tr_passed rep = length (filter (\<lambda>r. status r = ''PASSED'') (results v))
         \<and> tr_pass_rate rep =
             (if tr_total rep > 0
              then VFloat (round_float env
                     (round_real env (real (tr_passed rep) / real (tr_total rep))
                        * round_real env 100))
              else VInt 0)
         \<and> (results v = [] \<longrightarrow> tr_pass_rate rep = VInt 0)"
    using h by (simp add: generate_report_unfold Let_def bind_lift_Inr)
qed

text \<open>Three results out of four passed give 75; no result gives 0.\<close>

theorem pass_rate_value_witness:
  "(\<exists>rep. generate_report sample_env \<lparr>test_data = sample_suite [], results = sample_results\<rparr>
            = ([Print ReportWritten], Inr rep)
          \<and> tr_total rep = 4 \<and> tr_passed rep = 3 \<and> tr_pass_rate rep = VFloat (Finite 75))
   \<and> (\<exists>rep. generate_report sample_env \<lparr>test_data = sample_suite [], results = []\<rparr>
            = ([Print ReportWritten], Inr rep)
          \<and> tr_total rep = 0 \<and> tr_pass_rate rep = VInt 0)"
proof -
  have a: "subscript (test_data \<lparr>test_data = sample_suite [], results = rs\<rparr>) ''spec_version''
             = Inr (VStr ''0.1'')
         \<and> subscript (test_data \<lparr>test_data = sample_suite [], results = rs\<rparr>) ''version''
             = Inr (VStr ''1.0'')" for rs
    by (simp add: sample_suite_fields)
  have r: "round_float sample_env (round_real sample_env (3 / 4) * round_real sample_env 100)
             = Finite 75"
    by (simp add: sample_env_def round_double_values round_float_def overflow_threshold_def)
  from pass_rate_value [where env = sample_env and spec = "VStr ''0.1''"
         and version = "VStr ''1.0''"
         and v = "\<lparr>test_data = sample_suite [], results = sample_results\<rparr>"]
       a [of sample_results]
  have "\<exists>rep. generate_report sample_env \<lparr>test_data = sample_suite [], results = sample_results\<rparr>
            = ([Print ReportWritten], Inr rep)
          \<and> tr_total rep = 4 \<and> tr_passed rep = 3 \<and> tr_pass_rate rep = VFloat (Finite 75)"
    using r by (auto simp: sample_results_def result_entry_def)
  moreover from pass_rate_value [where env = sample_env and spec = "VStr ''0.1''"
         and version = "VStr ''1.0''"
         and v = "\<lparr>test_data = sample_suite [], results = []\<rparr>"]
       a [of "[]"]
  have "\<exists>rep. generate_report sample_env \<lparr>test_data = sample_suite [], results = []\<rparr>
            = ([Print ReportWritten], Inr rep)
          \<and> tr_total rep = 0 \<and> tr_pass_rate rep = VInt 0"
    by auto
  ultimately show ?thesis by blast
qed

text \<open>
  Claim C8 as it is written fails, where \<open>passed / total * 100\<close> is read as the exact
  number. With 7 results passed out of 25 that number is 28; the double nearest to 7/25 is
  a little more than 7/25, its product with 100 rounds up, and the \<open>pass_rate\<close> of the
  report is the next double after 28, which Python prints as \<open>28.000000000000004\<close>.
\<close>

theorem pass_rate_rounding_counterexample:
  "map_sum id tr_passed
     (snd (generate_report sample_env \<lparr>test_data = sample_suite [], results = mixed_results\<rparr>))
     = Inr 7
   \<and> map_sum id tr_total
     (snd (generate_report sample_env \<lparr>test_data = sample_suite [], results = mixed_results\<rparr>))
     = Inr 25
   \<and> map_sum id tr_pass_rate
     (snd (generate_report sample_env \<lparr>test_data = sample_suite [], results = mixed_results\<rparr>))
     = Inr (VFloat (Finite (28 + 1 / 2 ^ 48)))
   \<and> map_sum id tr_pass_rate
     (snd (generate_report sample_env \<lparr>test_data = sample_suite [], results = mixed_results\<rparr>))
     \<noteq> Inr (VFloat (Finite (7 / 25 * 100)))
   \<and> (7::real) / 25 * 100 = 28"
proof -
  have p: "round_real sample_env (7 / 25) * round_real sample_env 100
             = 5044031582654956 / 2 ^ 54 * 100"
    by (simp only: sample_env_def env.simps round_double_values)
  have "round_float sample_env (5044031582654956 / 2 ^ 54 * 100)
          = Finite (round_double (5044031582654956 / 2 ^ 54 * 100))"
    by (rule round_float_sample) simp_all
  also have "\<dots> = Finite (7881299347898369 / 2 ^ 48)"
    by (simp only: round_double_values)
  also have "\<dots> = Finite (28 + 1 / 2 ^ 48)"
    by simp
  finally have r: "round_float sample_env
                     (round_real sample_env (7 / 25) * round_real sample_env 100)
                   = Finite (28 + 1 / 2 ^ 48)"
    by (simp only: p)
  have n: "length mixed_results = 25"
          "length (filter (\<lambda>r. status r = ''PASSED'') mixed_results) = 7"
    by (simp_all add: mixed_results_def result_entry_def)
  show ?thesis
    using r
    by (simp add: generate_report_unfold Let_def bind_lift_Inr sample_suite_fields n)
qed

end
